theory Spec2Isabelle
  imports Complex_Main
begin

section \<open>Cooling tower control: the optimized variant of the control function\<close>

text \<open>
  The repository holds three versions of \<^verbatim>\<open>processCoolingTowerControl\<close>: the
  oldest one (CoolingTower.js), the legacy version 1.1.0 and the optimized version 2.0.0
  (both in unnamed/part_000). This theory embeds the optimized version, the latest of
  the three, function by function and under the names of the source. All statements
  below are about that version.

  Conventions of the embedding:
  \<^item> JavaScript numbers are real numbers; NaN and the rounding of doubles are outside
    the model. Instants (\<^verbatim>\<open>Date.now()\<close>) are integers, in milliseconds, and one
    tick reads one clock value \<open>now\<close>.
  \<^item> \<^verbatim>\<open>null\<close> is \<open>None\<close>. A JavaScript truth test of an instant
    (\<^verbatim>\<open>if (timer.startTime)\<close>) is false for \<^verbatim>\<open>null\<close> and for 0.
  \<^item> An object with the keys tower1, tower2, tower3 (or pump1, pump2, pump3) is a
    record with the fields k1, k2, k3, read and written through the number of the
    tower or pump as the source does with its template strings.
  \<^item> Mutation of \<^verbatim>\<open>stateStorage\<close> and \<^verbatim>\<open>controlResult\<close> is explicit state
    passing: a function returns the objects it has changed.
  \<^item> The PID controller is a library outside the repository. It is a parameter:
    \<open>None\<close> when the module could not be loaded, otherwise a function that returns
    \<open>None\<close> when it throws and its output with the new PID state when it returns.
  \<^item> The configuration flags (bypasses, availability) are a parameter as well;
    \<open>COOLING_TOWER_CONFIG\<close> is the configuration in the source.
\<close>

subsection \<open>Data\<close>

record 'a per3 =
  k1 :: 'a
  k2 :: 'a
  k3 :: 'a

definition get3 :: "'a \<Rightarrow> 'a per3 \<Rightarrow> nat \<Rightarrow> 'a" where
  "get3 d x i = (if i = 1 then k1 x else if i = 2 then k2 x else if i = 3 then k3 x else d)"

definition set3 :: "nat \<Rightarrow> 'a \<Rightarrow> 'a per3 \<Rightarrow> 'a per3" where
  "set3 i v x = (if i = 1 then x\<lparr>k1 := v\<rparr> else if i = 2 then x\<lparr>k2 := v\<rparr>
                 else if i = 3 then x\<lparr>k3 := v\<rparr> else x)"

definition all3 :: "'a \<Rightarrow> 'a per3" where
  "all3 v = \<lparr>k1 = v, k2 = v, k3 = v\<rparr>"

text \<open>A raw reading: a missing key, a number, or a non-empty string that
  \<^verbatim>\<open>parseFloat\<close> reads as the given number.\<close>

datatype raw = JUndef | JNum real | JStr real

text \<open>\<^verbatim>\<open>parseFloat(v || d)\<close>: a missing key and the number 0 are falsy.\<close>

definition parseOr :: "raw \<Rightarrow> real \<Rightarrow> real" where
  "parseOr v d = (case v of JUndef \<Rightarrow> d | JNum r \<Rightarrow> (if r = 0 then d else r) | JStr r \<Rightarrow> r)"

definition js_falsy :: "raw \<Rightarrow> bool" where
  "js_falsy v = (case v of JUndef \<Rightarrow> True | JNum r \<Rightarrow> r = 0 | JStr r \<Rightarrow> False)"

record sensor_input =
  AI1 :: raw
  AI2 :: raw
  AI3 :: raw
  AI4 :: raw
  AI5 :: raw
  AI6 :: raw
  CH1 :: raw
  CH2 :: raw
  CH5 :: raw
  CH6 :: raw
  CH8 :: raw
  CH9 :: raw
  CH10 :: raw
  WTV801_1 :: raw
  WTV801_2 :: raw
  WTV801_3 :: raw
  in_outdoorTemp :: raw
  userSetpoint :: raw
  in_targetSupplyTemp :: raw

record ui_commands =
  ui_systemEnabled :: "bool option"
  ui_controlMode :: "string option"
  ui_towerVFDEnable :: "bool option per3"
  ui_towerFanSpeed :: "real option per3"
  ui_towerHeaterEnable :: "bool option per3"
  ui_bypassValvePosition :: "real option"
  ui_temperingValvePosition :: "real option"

record config =
  BYPASS_EMERGENCY_STOP :: bool
  BYPASS_WATER_LEVEL :: bool
  BYPASS_VIBRATION_LIMITS :: bool
  BYPASS_CURRENT_LIMITS :: bool
  BYPASS_PUMP_STATUS :: bool
  BYPASS_VFD_FAULTS :: bool
  TOWER_AVAILABLE :: "bool per3"
  PUMP_AVAILABLE :: "bool per3"

definition COOLING_TOWER_CONFIG :: config where
  "COOLING_TOWER_CONFIG =
     \<lparr>BYPASS_EMERGENCY_STOP = False, BYPASS_WATER_LEVEL = False,
      BYPASS_VIBRATION_LIMITS = False, BYPASS_CURRENT_LIMITS = False,
      BYPASS_PUMP_STATUS = False, BYPASS_VFD_FAULTS = False,
      TOWER_AVAILABLE = \<lparr>k1 = True, k2 = True, k3 = False\<rparr>,
      PUMP_AVAILABLE = \<lparr>k1 = True, k2 = True, k3 = True\<rparr>\<rparr>"

abbreviation (input) VIBRATION_WARNING_LIMIT :: real where "VIBRATION_WARNING_LIMIT \<equiv> 4.5"
abbreviation (input) VIBRATION_CRITICAL_LIMIT :: real where "VIBRATION_CRITICAL_LIMIT \<equiv> 7.1"
abbreviation (input) VFD_CURRENT_WARNING :: real where "VFD_CURRENT_WARNING \<equiv> 40"
abbreviation (input) VFD_CURRENT_CRITICAL :: real where "VFD_CURRENT_CRITICAL \<equiv> 45"
abbreviation (input) PUMP_CURRENT_MIN :: real where "PUMP_CURRENT_MIN \<equiv> 5"
abbreviation (input) PUMP_CURRENT_MAX :: real where "PUMP_CURRENT_MAX \<equiv> 45"
abbreviation (input) STAGE_1_DELTA_T :: real where "STAGE_1_DELTA_T \<equiv> 10"
abbreviation (input) STAGE_2_DELTA_T :: real where "STAGE_2_DELTA_T \<equiv> 20"
abbreviation (input) STAGE_3_DELTA_T :: real where "STAGE_3_DELTA_T \<equiv> 30"
abbreviation (input) STAGE_4_DELTA_T :: real where "STAGE_4_DELTA_T \<equiv> 35"
abbreviation (input) VFD_MIN_SPEED :: real where "VFD_MIN_SPEED \<equiv> 2.6"
abbreviation (input) VFD_MAX_SPEED :: real where "VFD_MAX_SPEED \<equiv> 4.8"
abbreviation (input) VFD_LOW_SPEED :: real where "VFD_LOW_SPEED \<equiv> 3.5"
abbreviation (input) PUMP_CHANGEOVER_OVERLAP_MS :: int where "PUMP_CHANGEOVER_OVERLAP_MS \<equiv> 5000"
abbreviation (input) WEEK_IN_MS :: int where "WEEK_IN_MS \<equiv> 7 * 24 * 60 * 60 * 1000"

record vfd_currents =
  tower1A :: real
  tower1B :: real
  tower2A :: real
  tower2B :: real
  tower3A :: real
  tower3B :: real

record temperatures =
  towerSupply :: real
  towerReturn :: real
  hpReturn :: real
  hpSupply :: real
  outdoor :: real

record last_good =
  lg_towerSupply :: real
  lg_towerReturn :: real
  lg_hpReturn :: real
  lg_hpSupply :: real

record sensor_data =
  vfdCurrents :: vfd_currents
  pumpCurrents :: "real per3"
  temps :: temperatures
  vibration :: "real per3"
  targetSetpoint :: real

record timer =
  startTime :: "int option"
  stopTime :: "int option"

record ramp_state =
  currentSpeed :: real
  targetSpeed :: real
  lastChange :: int

record pid_state =
  integral :: real
  previousError :: real
  lastOutput :: real

record changeover =
  newPump :: nat
  co_startTime :: int

record towers_state =
  leadTower :: nat
  lastRotationTime :: int
  runtimeTracking :: "real per3"
  timers :: "timer per3"
  speedRamping :: "ramp_state per3"

record pumps_state =
  activePump :: nat
  pump_lastRotationTime :: int
  pump_runtimeTracking :: "real per3"
  changeoverState :: "changeover option"
  failoverCount :: nat
  lastFailoverTime :: int

record pid_states =
  tower_pid :: "pid_state per3"
  valve_pid :: pid_state

text \<open>The carried state as the caller hands it over (each part may be missing), and
  as it is after \<^verbatim>\<open>initializeState\<close>.\<close>

record raw_storage =
  raw_towers :: "towers_state option"
  raw_pumps :: "pumps_state option"
  raw_pidStates :: "pid_states option"
  raw_lastGoodTemps :: "last_good option"

record state_storage =
  towers :: towers_state
  pumps :: pumps_state
  pidStates :: pid_states
  lastGoodTemps :: last_good

definition carried :: "state_storage \<Rightarrow> raw_storage" where
  "carried s = \<lparr>raw_towers = Some (towers s), raw_pumps = Some (pumps s),
                 raw_pidStates = Some (pidStates s), raw_lastGoodTemps = Some (lastGoodTemps s)\<rparr>"

definition empty_storage :: raw_storage where
  "empty_storage = \<lparr>raw_towers = None, raw_pumps = None, raw_pidStates = None,
                     raw_lastGoodTemps = None\<rparr>"

definition no_commands :: ui_commands where
  "no_commands = \<lparr>ui_systemEnabled = None, ui_controlMode = None,
                   ui_towerVFDEnable = all3 None, ui_towerFanSpeed = all3 None,
                   ui_towerHeaterEnable = all3 None, ui_bypassValvePosition = None,
                   ui_temperingValvePosition = None\<rparr>"

text \<open>The PID library: controller type, input, setpoint, dt and PID state.\<close>

type_synonym pid_controller =
  "string \<Rightarrow> real \<Rightarrow> real \<Rightarrow> real \<Rightarrow> pid_state \<Rightarrow> (real \<times> pid_state) option"

text \<open>The output snapshot. The constant \<^verbatim>\<open>equipmentIds\<close> and the ISO date string
  \<^verbatim>\<open>lastUpdate\<close> are left out; the mirrored sensor readings of
  \<^verbatim>\<open>flattenSensorData\<close> are the field \<open>readings\<close> with the three derived flag
  triples beside it.\<close>

record control_result =
  towerVFDEnable :: "bool per3"
  towerFanSpeed :: "real per3"
  bypassValvePosition :: real
  temperingValvePosition :: real
  pumpEnable :: "bool per3"
  towerIsolationValveOpen :: "bool per3"
  towerIsolationValveClose :: "bool per3"
  towerHeaterEnable :: "bool per3"
  systemEnabled :: bool
  emergencyStop :: bool
  controlMode :: string
  cr_leadTower :: nat
  activeTowers :: nat
  coolingDemand :: real
  readings :: sensor_data
  pumpRunning :: "bool per3"
  towerVibrationOK :: "bool per3"
  targetSupplyTemp :: real
  loopDeltaT :: real
  alarmStatus :: string
  faultConditions :: "string list"
  safetyBypasses :: "string list"
  controlTimestamp :: int

subsection \<open>Initialization and sensor parsing\<close>

definition initializeState :: "int \<Rightarrow> raw_storage \<Rightarrow> state_storage" where
  "initializeState now s =
     \<lparr>towers = (case raw_towers s of Some t \<Rightarrow> t
                | None \<Rightarrow> \<lparr>leadTower = 1, lastRotationTime = now, runtimeTracking = all3 0,
                           timers = all3 \<lparr>startTime = None, stopTime = None\<rparr>,
                           speedRamping = all3 \<lparr>currentSpeed = 0, targetSpeed = 0, lastChange = 0\<rparr>\<rparr>),
      pumps = (case raw_pumps s of Some p \<Rightarrow> p
               | None \<Rightarrow> \<lparr>activePump = 1, pump_lastRotationTime = now,
                          pump_runtimeTracking = all3 0, changeoverState = None,
                          failoverCount = 0, lastFailoverTime = 0\<rparr>),
      pidStates = (case raw_pidStates s of Some p \<Rightarrow> p
                   | None \<Rightarrow> \<lparr>tower_pid = all3 \<lparr>integral = 0, previousError = 0,
                                                    lastOutput = VFD_MIN_SPEED\<rparr>,
                              valve_pid = \<lparr>integral = 0, previousError = 0, lastOutput = 6.0\<rparr>\<rparr>),
      lastGoodTemps = (case raw_lastGoodTemps s of Some g \<Rightarrow> g
                       | None \<Rightarrow> \<lparr>lg_towerSupply = 85, lg_towerReturn = 95,
                                  lg_hpReturn = 85, lg_hpSupply = 75\<rparr>)\<rparr>"

text \<open>One loop temperature in \<^verbatim>\<open>sanitizeTemperatures\<close>: the sanitized value and the
  new last-good value. The last branch is the source's "use as-is": the last-good value
  is falsy (0).\<close>

definition sanitizeOne :: "real \<Rightarrow> real \<Rightarrow> real \<times> real" where
  "sanitizeOne temp lastGood =
     (if temp \<ge> 40 \<and> temp \<le> 120 then (temp, temp)
      else if lastGood \<noteq> 0 then (lastGood, lastGood)
      else (temp, lastGood))"

definition sanitizeTemperatures :: "temperatures \<Rightarrow> last_good \<Rightarrow> temperatures \<times> last_good" where
  "sanitizeTemperatures t g =
     (let (ts, gts) = sanitizeOne (towerSupply t) (lg_towerSupply g);
          (tr, gtr) = sanitizeOne (towerReturn t) (lg_towerReturn g);
          (hr, ghr) = sanitizeOne (hpReturn t) (lg_hpReturn g);
          (hs, ghs) = sanitizeOne (hpSupply t) (lg_hpSupply g);
          od = (if outdoor t \<ge> -20 \<and> outdoor t \<le> 120 then outdoor t else 75)
      in (\<lparr>towerSupply = ts, towerReturn = tr, hpReturn = hr, hpSupply = hs, outdoor = od\<rparr>,
          \<lparr>lg_towerSupply = gts, lg_towerReturn = gtr, lg_hpReturn = ghr, lg_hpSupply = ghs\<rparr>))"

definition parseSensorData :: "sensor_input \<Rightarrow> last_good \<Rightarrow> sensor_data \<times> last_good" where
  "parseSensorData d g =
     (let (t, g') = sanitizeTemperatures
                      \<lparr>towerSupply = parseOr (CH10 d) 75, towerReturn = parseOr (CH9 d) 85,
                       hpReturn = parseOr (CH1 d) 85, hpSupply = parseOr (CH2 d) 75,
                       outdoor = parseOr (in_outdoorTemp d) 75\<rparr> g
      in (\<lparr>vfdCurrents = \<lparr>tower1A = parseOr (AI1 d) 0, tower1B = parseOr (AI2 d) 0,
                           tower2A = parseOr (AI3 d) 0, tower2B = parseOr (AI4 d) 0,
                           tower3A = parseOr (AI5 d) 0, tower3B = parseOr (AI6 d) 0\<rparr>,
           pumpCurrents = \<lparr>k1 = parseOr (CH8 d) 0, k2 = parseOr (CH5 d) 0, k3 = parseOr (CH6 d) 0\<rparr>,
           temps = t,
           vibration = \<lparr>k1 = parseOr (WTV801_1 d) 0, k2 = parseOr (WTV801_2 d) 0,
                        k3 = parseOr (WTV801_3 d) 0\<rparr>,
           targetSetpoint = parseOr (if js_falsy (userSetpoint d) then in_targetSupplyTemp d
                                     else userSetpoint d) 75\<rparr>, g'))"

definition initializeControlResult :: "int \<Rightarrow> sensor_data \<Rightarrow> control_result" where
  "initializeControlResult now sd =
     \<lparr>towerVFDEnable = all3 False, towerFanSpeed = all3 0,
      bypassValvePosition = 2.0, temperingValvePosition = 2.0,
      pumpEnable = all3 False,
      towerIsolationValveOpen = all3 False, towerIsolationValveClose = all3 False,
      towerHeaterEnable = all3 False,
      systemEnabled = True, emergencyStop = False, controlMode = ''auto'',
      cr_leadTower = 1, activeTowers = 0, coolingDemand = 0,
      readings = sd,
      pumpRunning = \<lparr>k1 = k1 (pumpCurrents sd) > PUMP_CURRENT_MIN,
                     k2 = k2 (pumpCurrents sd) > PUMP_CURRENT_MIN,
                     k3 = k3 (pumpCurrents sd) > PUMP_CURRENT_MIN\<rparr>,
      towerVibrationOK = \<lparr>k1 = k1 (vibration sd) \<le> VIBRATION_CRITICAL_LIMIT,
                           k2 = k2 (vibration sd) \<le> VIBRATION_CRITICAL_LIMIT,
                           k3 = k3 (vibration sd) \<le> VIBRATION_CRITICAL_LIMIT\<rparr>,
      targetSupplyTemp = targetSetpoint sd,
      loopDeltaT = hpSupply (temps sd) - targetSetpoint sd,
      alarmStatus = ''normal'', faultConditions = [], safetyBypasses = [],
      controlTimestamp = now\<rparr>"

subsection \<open>Safety checks\<close>

definition EQUIPMENT_ID :: "nat \<Rightarrow> string" where
  "EQUIPMENT_ID n = (if n = 1 then ''QNiHngLxledu7BHM9wLi''
                     else if n = 2 then ''H2lwkgXBNDsvnuKoDUQe'' else ''QYTVSM7IMylxDc2Y0pxr'')"

definition numStr :: "nat \<Rightarrow> string" where
  "numStr n = (if n = 1 then ''1'' else if n = 2 then ''2'' else ''3'')"

definition vibrationFault :: "nat \<Rightarrow> string" where
  "vibrationFault n = ''TOWER'' @ numStr n @ ''_HIGH_VIBRATION_CRITICAL (ID: '' @ EQUIPMENT_ID n @ '')''"

definition vfdCurrentFault :: "nat \<Rightarrow> string" where
  "vfdCurrentFault n = ''TOWER'' @ numStr n @ ''_CRITICAL_VFD_CURRENT (ID: '' @ EQUIPMENT_ID n @ '')''"

definition pumpFault :: "nat \<Rightarrow> string" where
  "pumpFault n = ''PUMP'' @ numStr n @ ''_OVERCURRENT (Tower ID: '' @ EQUIPMENT_ID n @ '')''"

text \<open>The list \<^verbatim>\<open>faultConditions\<close> that \<^verbatim>\<open>performSafetyChecks\<close> builds, in the
  order of its three loops (each VFD leg pushes an entry of its own).\<close>

definition criticalFaults :: "config \<Rightarrow> sensor_data \<Rightarrow> string list" where
  "criticalFaults cfg sd =
     (if \<not> BYPASS_VIBRATION_LIMITS cfg then
        (if k1 (vibration sd) > VIBRATION_CRITICAL_LIMIT then [vibrationFault 1] else []) @
        (if k2 (vibration sd) > VIBRATION_CRITICAL_LIMIT then [vibrationFault 2] else []) @
        (if k3 (vibration sd) > VIBRATION_CRITICAL_LIMIT then [vibrationFault 3] else [])
      else []) @
     (if \<not> BYPASS_CURRENT_LIMITS cfg then
        (if tower1A (vfdCurrents sd) > VFD_CURRENT_CRITICAL then [vfdCurrentFault 1] else []) @
        (if tower1B (vfdCurrents sd) > VFD_CURRENT_CRITICAL then [vfdCurrentFault 1] else []) @
        (if tower2A (vfdCurrents sd) > VFD_CURRENT_CRITICAL then [vfdCurrentFault 2] else []) @
        (if tower2B (vfdCurrents sd) > VFD_CURRENT_CRITICAL then [vfdCurrentFault 2] else []) @
        (if tower3A (vfdCurrents sd) > VFD_CURRENT_CRITICAL then [vfdCurrentFault 3] else []) @
        (if tower3B (vfdCurrents sd) > VFD_CURRENT_CRITICAL then [vfdCurrentFault 3] else []) @
        (if k1 (pumpCurrents sd) > PUMP_CURRENT_MAX then [pumpFault 1] else []) @
        (if k2 (pumpCurrents sd) > PUMP_CURRENT_MAX then [pumpFault 2] else []) @
        (if k3 (pumpCurrents sd) > PUMP_CURRENT_MAX then [pumpFault 3] else [])
      else [])"

definition bypassList :: "config \<Rightarrow> string list" where
  "bypassList cfg =
     (if BYPASS_VIBRATION_LIMITS cfg then [''VIBRATION_LIMITS_BYPASSED''] else []) @
     (if BYPASS_CURRENT_LIMITS cfg then [''CURRENT_LIMITS_BYPASSED''] else []) @
     (if BYPASS_EMERGENCY_STOP cfg then [''EMERGENCY_STOP_BYPASSED''] else []) @
     (if BYPASS_WATER_LEVEL cfg then [''WATER_LEVEL_BYPASSED''] else []) @
     (if BYPASS_VFD_FAULTS cfg then [''VFD_FAULTS_BYPASSED''] else [])"

text \<open>\<^verbatim>\<open>performSafetyChecks\<close>: the flag \<^verbatim>\<open>safe\<close> and the control result, which the
  source mutates in both cases.\<close>

definition performSafetyChecks :: "config \<Rightarrow> sensor_data \<Rightarrow> control_result \<Rightarrow> bool \<times> control_result" where
  "performSafetyChecks cfg sd cr =
     (let cr1 = cr\<lparr>faultConditions := criticalFaults cfg sd, safetyBypasses := bypassList cfg\<rparr>
      in if length (criticalFaults cfg sd) > 0 then
           (False, cr1\<lparr>alarmStatus := ''critical'', systemEnabled := False,
                      towerVFDEnable := all3 False, towerFanSpeed := all3 0,
                      towerIsolationValveClose := all3 True,
                      towerIsolationValveOpen := all3 False\<rparr>)
         else (True, cr1))"

subsection \<open>Staging\<close>

text \<open>The loop \<^verbatim>\<open>do { next = (next % 3) + 1; attempts++ } while (!available && attempts < 3)\<close>
  of \<^verbatim>\<open>performLeadTowerRotation\<close> and \<^verbatim>\<open>findNextAvailablePump\<close>; the arguments are
  the values before the body runs.\<close>

function nextAvailable :: "bool per3 \<Rightarrow> nat \<Rightarrow> nat \<Rightarrow> nat" where
  "nextAvailable avail nxt attempts =
     (if \<not> get3 False avail ((nxt mod 3) + 1) \<and> attempts + 1 < 3
      then nextAvailable avail ((nxt mod 3) + 1) (attempts + 1)
      else (nxt mod 3) + 1)"
  by pat_completeness auto
termination
  by (relation "measure (\<lambda>(avail, nxt, attempts). 3 - attempts)") auto

definition performLeadTowerRotation :: "config \<Rightarrow> int \<Rightarrow> state_storage \<Rightarrow> state_storage" where
  "performLeadTowerRotation cfg now st =
     (if now - lastRotationTime (towers st) > WEEK_IN_MS then
        (let nextTower = nextAvailable (TOWER_AVAILABLE cfg) (leadTower (towers st)) 0
         in if get3 False (TOWER_AVAILABLE cfg) nextTower
            then st\<lparr>towers := (towers st)\<lparr>leadTower := nextTower, lastRotationTime := now\<rparr>\<rparr>
            else st)
      else st)"

text \<open>The truth test of an instant: \<^verbatim>\<open>null\<close> and 0 are falsy.\<close>

definition truthy :: "int option \<Rightarrow> bool" where
  "truthy t = (case t of None \<Rightarrow> False | Some v \<Rightarrow> v \<noteq> 0)"

definition timerOf :: "state_storage \<Rightarrow> nat \<Rightarrow> timer" where
  "timerOf st i = get3 \<lparr>startTime = None, stopTime = None\<rparr> (timers (towers st)) i"

definition isAnyTowerCurrentlyRunning :: "state_storage \<Rightarrow> bool" where
  "isAnyTowerCurrentlyRunning st =
     (startTime (k1 (timers (towers st))) \<noteq> None \<or>
      startTime (k2 (timers (towers st))) \<noteq> None \<or>
      startTime (k3 (timers (towers st))) \<noteq> None)"

definition getCurrentlyRunningTowerCount :: "state_storage \<Rightarrow> nat" where
  "getCurrentlyRunningTowerCount st =
     (if truthy (startTime (k1 (timers (towers st)))) then 1 else 0) +
     (if truthy (startTime (k2 (timers (towers st)))) then 1 else 0) +
     (if truthy (startTime (k3 (timers (towers st)))) then 1 else 0)"

record staging_decision =
  demandedTowers :: nat
  sd_coolingDemand :: real
  deltaT :: real
  sd_leadTower :: nat
  lagTowers :: "nat \<times> nat"

definition calculateStaging :: "sensor_data \<Rightarrow> state_storage \<Rightarrow> staging_decision" where
  "calculateStaging sd st =
     (let dT = hpSupply (temps sd) - targetSetpoint sd;
          anyTowerRunning = isAnyTowerCurrentlyRunning st;
          (demanded, demand) =
            (if dT < -15 \<or> hpSupply (temps sd) < 65 \<or> towerSupply (temps sd) < 50 then (0, 0)
             else if anyTowerRunning \<and> dT \<ge> -5 then
               (max 1 (getCurrentlyRunningTowerCount st), max 28 (min 100 (28 + dT * 3)))
             else if dT \<ge> STAGE_1_DELTA_T then
               (if dT \<ge> STAGE_4_DELTA_T then (3, 100)
                else if dT \<ge> STAGE_3_DELTA_T then (3, 75)
                else if dT \<ge> STAGE_2_DELTA_T then (2, 60)
                else (1, max 28 (min 50 (28 + (dT - 10) * 2))))
             else (0, 0))
      in \<lparr>demandedTowers = demanded, sd_coolingDemand = demand, deltaT = dT,
          sd_leadTower = leadTower (towers st),
          lagTowers = ((leadTower (towers st) mod 3) + 1, ((leadTower (towers st) + 1) mod 3) + 1)\<rparr>)"

subsection \<open>Tower control\<close>

definition canEnableTower :: "config \<Rightarrow> int \<Rightarrow> nat \<Rightarrow> state_storage \<Rightarrow> bool" where
  "canEnableTower cfg now towerNum st =
     (if \<not> get3 False (TOWER_AVAILABLE cfg) towerNum then False
      else (case stopTime (timerOf st towerNum) of
              None \<Rightarrow> True
            | Some stop \<Rightarrow> \<not> (stop \<noteq> 0 \<and> real_of_int (now - stop) / 1000 < 180)))"

definition calculateFallbackSpeed :: "real \<Rightarrow> pid_state \<Rightarrow> real \<times> pid_state" where
  "calculateFallbackSpeed demand ps =
     (let speed0 = (if lastOutput ps = 0 then VFD_MIN_SPEED else lastOutput ps);
          speed = (if demand > 50 then min (speed0 + 0.1) VFD_MAX_SPEED
                   else if demand < 30 then max (speed0 - 0.1) VFD_MIN_SPEED
                   else speed0)
      in (speed, ps\<lparr>lastOutput := speed\<rparr>))"

text \<open>\<^verbatim>\<open>applySpeedRamping\<close>: the time since the last change is read before the
  first-run initialization, as in the source.\<close>

definition applySpeedRamping :: "int \<Rightarrow> real \<Rightarrow> ramp_state \<Rightarrow> real \<times> ramp_state" where
  "applySpeedRamping now target rs =
     (let timeSinceLastChange = now - lastChange rs;
          r1 = (if currentSpeed rs = 0 then rs\<lparr>currentSpeed := VFD_MIN_SPEED, lastChange := now\<rparr>
                else rs);
          r2 = (if timeSinceLastChange \<ge> 15000 then
                  (let difference = target - currentSpeed r1
                   in if \<bar>difference\<bar> > 0.1
                      then r1\<lparr>currentSpeed := currentSpeed r1 + sgn difference * min \<bar>difference\<bar> 0.3,
                             lastChange := now\<rparr>
                      else r1)
                else r1);
          r3 = r2\<lparr>targetSpeed := target\<rparr>
      in (max VFD_MIN_SPEED (min VFD_MAX_SPEED (currentSpeed r3)), r3))"

definition calculateTowerSpeed ::
  "pid_controller option \<Rightarrow> int \<Rightarrow> nat \<Rightarrow> real \<Rightarrow> sensor_data \<Rightarrow> state_storage \<Rightarrow> real \<times> state_storage" where
  "calculateTowerSpeed pid now towerNum demand sd st =
     (let timer = timerOf st towerNum;
          pidState = get3 \<lparr>integral = 0, previousError = 0, lastOutput = 0\<rparr> (tower_pid (pidStates st)) towerNum;
          rampState = get3 \<lparr>currentSpeed = 0, targetSpeed = 0, lastChange = 0\<rparr> (speedRamping (towers st)) towerNum
      in if (case startTime timer of None \<Rightarrow> False
             | Some start \<Rightarrow> start \<noteq> 0 \<and> real_of_int (now - start) / 1000 < 420)
         then (VFD_MIN_SPEED, st)
         else if \<bar>hpSupply (temps sd) - targetSetpoint sd\<bar> < 2 then (VFD_MIN_SPEED, st)
         else
           (let (targetSpd, pidState') =
                  (case pid of
                     None \<Rightarrow> calculateFallbackSpeed demand pidState
                   | Some f \<Rightarrow>
                       (case f (''tower'' @ numStr towerNum @ ''_vfd'') (hpSupply (temps sd))
                                (targetSetpoint sd) 15 pidState of
                          None \<Rightarrow> calculateFallbackSpeed demand pidState
                        | Some r \<Rightarrow> r));
                (speed, rampState') = applySpeedRamping now targetSpd rampState
            in (speed,
                st\<lparr>pidStates := (pidStates st)\<lparr>tower_pid := set3 towerNum pidState' (tower_pid (pidStates st))\<rparr>,
                   towers := (towers st)\<lparr>speedRamping := set3 towerNum rampState' (speedRamping (towers st))\<rparr>\<rparr>)))"

definition enableTower ::
  "pid_controller option \<Rightarrow> int \<Rightarrow> nat \<Rightarrow> real \<Rightarrow> sensor_data \<Rightarrow> control_result \<times> state_storage
     \<Rightarrow> control_result \<times> state_storage" where
  "enableTower pid now towerNum demand sd crst =
     (let (cr, st) = crst;
          cr1 = cr\<lparr>towerVFDEnable := set3 towerNum True (towerVFDEnable cr),
                   towerIsolationValveOpen := set3 towerNum True (towerIsolationValveOpen cr),
                   towerIsolationValveClose := set3 towerNum False (towerIsolationValveClose cr)\<rparr>;
          st1 = (if \<not> truthy (startTime (timerOf st towerNum))
                 then st\<lparr>towers := (towers st)\<lparr>timers :=
                          set3 towerNum \<lparr>startTime = Some now, stopTime = None\<rparr> (timers (towers st))\<rparr>\<rparr>
                 else st);
          (speed, st2) = calculateTowerSpeed pid now towerNum demand sd st1
      in (cr1\<lparr>towerFanSpeed := set3 towerNum speed (towerFanSpeed cr1)\<rparr>, st2))"

definition forceOn :: "nat \<Rightarrow> control_result \<Rightarrow> control_result" where
  "forceOn i cr =
     cr\<lparr>towerVFDEnable := set3 i True (towerVFDEnable cr),
        towerFanSpeed := set3 i VFD_MIN_SPEED (towerFanSpeed cr),
        towerIsolationValveOpen := set3 i True (towerIsolationValveOpen cr),
        towerIsolationValveClose := set3 i False (towerIsolationValveClose cr)\<rparr>"

text \<open>The body of the loop of \<^verbatim>\<open>enforceMinimumRuntimes\<close> for tower \<open>i\<close>.\<close>

definition enforceOne :: "int \<Rightarrow> sensor_data \<Rightarrow> nat \<Rightarrow> control_result \<times> state_storage
     \<Rightarrow> control_result \<times> state_storage" where
  "enforceOne now sd i crst =
     (let (cr, st) = crst;
          dT = hpSupply (temps sd) - targetSetpoint sd
      in (case startTime (timerOf st i) of
            None \<Rightarrow> (cr, st)
          | Some start \<Rightarrow>
              if start \<noteq> 0 \<and> \<not> get3 False (towerVFDEnable cr) i then
                (if real_of_int (now - start) / 1000 < 420 then (forceOn i cr, st)
                 else if dT < -10 then
                   (cr, st\<lparr>towers := (towers st)\<lparr>timers :=
                              set3 i ((timerOf st i)\<lparr>startTime := None, stopTime := Some now\<rparr>)
                                   (timers (towers st))\<rparr>\<rparr>)
                 else (forceOn i cr, st))
              else (cr, st)))"

definition enforceMinimumRuntimes :: "int \<Rightarrow> sensor_data \<Rightarrow> control_result \<times> state_storage
     \<Rightarrow> control_result \<times> state_storage" where
  "enforceMinimumRuntimes now sd crst = enforceOne now sd 3 (enforceOne now sd 2 (enforceOne now sd 1 crst))"

definition towersToEnable :: "staging_decision \<Rightarrow> nat list" where
  "towersToEnable sdec =
     (if demandedTowers sdec \<ge> 1 then [sd_leadTower sdec] else []) @
     (if demandedTowers sdec \<ge> 2 then [fst (lagTowers sdec)] else []) @
     (if demandedTowers sdec \<ge> 3 then [snd (lagTowers sdec)] else [])"

text \<open>The \<^verbatim>\<open>forEach\<close> over the towers to enable.\<close>

fun enableEach :: "config \<Rightarrow> pid_controller option \<Rightarrow> int \<Rightarrow> real \<Rightarrow> sensor_data \<Rightarrow> nat list
     \<Rightarrow> control_result \<times> state_storage \<Rightarrow> control_result \<times> state_storage" where
  "enableEach cfg pid now demand sd [] crst = crst"
| "enableEach cfg pid now demand sd (towerNum # rest) crst =
     enableEach cfg pid now demand sd rest
       (if canEnableTower cfg now towerNum (snd crst)
        then enableTower pid now towerNum demand sd crst else crst)"

definition controlTowers ::
  "config \<Rightarrow> pid_controller option \<Rightarrow> int \<Rightarrow> staging_decision \<Rightarrow> sensor_data
     \<Rightarrow> control_result \<times> state_storage \<Rightarrow> control_result \<times> state_storage" where
  "controlTowers cfg pid now sdec sd crst =
     (let (cr, st) = crst;
          cr0 = cr\<lparr>towerVFDEnable := all3 False, towerFanSpeed := all3 0,
                   towerIsolationValveOpen := all3 False, towerIsolationValveClose := all3 True\<rparr>;
          (cr1, st1) = enforceMinimumRuntimes now sd
                         (enableEach cfg pid now (sd_coolingDemand sdec) sd (towersToEnable sdec) (cr0, st))
      in (cr1\<lparr>cr_leadTower := sd_leadTower sdec, activeTowers := demandedTowers sdec,
               coolingDemand := sd_coolingDemand sdec\<rparr>, st1))"

subsection \<open>Pump control\<close>

definition findNextAvailablePump :: "config \<Rightarrow> nat \<Rightarrow> nat option" where
  "findNextAvailablePump cfg currentPump =
     (let nextPump = nextAvailable (PUMP_AVAILABLE cfg) currentPump 0
      in if get3 False (PUMP_AVAILABLE cfg) nextPump then Some nextPump else None)"

definition checkPumpFailure ::
  "config \<Rightarrow> sensor_data \<Rightarrow> pumps_state \<Rightarrow> control_result \<Rightarrow> int \<Rightarrow> pumps_state" where
  "checkPumpFailure cfg sd ps cr currentTime =
     (let activePumpCurrent = get3 0 (pumpCurrents sd) (activePump ps);
          timeSinceLastFailover = currentTime - lastFailoverTime ps;
          shouldBeRunning = (get3 False (pumpEnable cr) (activePump ps) \<or>
                             (changeoverState ps = None \<and> \<not> BYPASS_PUMP_STATUS cfg))
      in if shouldBeRunning \<and> activePumpCurrent < 10.0 \<and> timeSinceLastFailover > 30000 then
           (case findNextAvailablePump cfg (activePump ps) of
              None \<Rightarrow> ps
            | Some nextPump \<Rightarrow>
                if get3 False (PUMP_AVAILABLE cfg) nextPump then
                  ps\<lparr>changeoverState := Some \<lparr>newPump = nextPump, co_startTime = currentTime\<rparr>,
                     failoverCount := failoverCount ps + 1,
                     lastFailoverTime := currentTime\<rparr>
                else ps)
         else ps)"

definition checkPumpRotation :: "config \<Rightarrow> pumps_state \<Rightarrow> int \<Rightarrow> pumps_state" where
  "checkPumpRotation cfg ps currentTime =
     (let timeSinceRotation = currentTime - pump_lastRotationTime ps
      in if timeSinceRotation \<ge> WEEK_IN_MS \<and> changeoverState ps = None then
           (case findNextAvailablePump cfg (activePump ps) of
              None \<Rightarrow> ps
            | Some nextPump \<Rightarrow>
                if nextPump \<noteq> activePump ps then
                  ps\<lparr>changeoverState := Some \<lparr>newPump = nextPump, co_startTime = currentTime\<rparr>,
                     pump_lastRotationTime := currentTime\<rparr>
                else ps)
         else ps)"

definition updatePumpRuntime :: "pumps_state \<Rightarrow> pumps_state" where
  "updatePumpRuntime ps =
     ps\<lparr>pump_runtimeTracking :=
          set3 (activePump ps) (get3 0 (pump_runtimeTracking ps) (activePump ps) + 7 / 3600000)
               (pump_runtimeTracking ps)\<rparr>"

definition controlPumps ::
  "config \<Rightarrow> int \<Rightarrow> sensor_data \<Rightarrow> control_result \<times> state_storage \<Rightarrow> control_result \<times> state_storage" where
  "controlPumps cfg currentTime sd crst =
     (let (cr, st) = crst
      in if BYPASS_PUMP_STATUS cfg then (cr\<lparr>pumpEnable := (pumpEnable cr)\<lparr>k1 := True\<rparr>\<rparr>, st)
         else
           (let ps = pumps st;
                (cr1, ps1) =
                  (case changeoverState ps of
                     None \<Rightarrow> (cr, ps)
                   | Some co \<Rightarrow>
                       if currentTime - co_startTime co < PUMP_CHANGEOVER_OVERLAP_MS then
                         (cr\<lparr>pumpEnable := set3 (newPump co) True
                                               (set3 (activePump ps) True (pumpEnable cr))\<rparr>, ps)
                       else (cr, ps\<lparr>activePump := newPump co, changeoverState := None\<rparr>));
                ps2 = checkPumpFailure cfg sd ps1 cr1 currentTime;
                ps3 = checkPumpRotation cfg ps2 currentTime;
                cr2 = (if changeoverState ps3 = None
                       then cr1\<lparr>pumpEnable := set3 (activePump ps3) True (pumpEnable cr1)\<rparr>
                       else cr1)
            in (cr2, st\<lparr>pumps := updatePumpRuntime ps3\<rparr>)))"

subsection \<open>Valves and heaters\<close>

definition applyFallbackValveControl :: "real \<Rightarrow> control_result \<Rightarrow> control_result" where
  "applyFallbackValveControl outdoorTemp cr =
     (if outdoorTemp < 35 then cr\<lparr>temperingValvePosition := 7.6\<rparr>
      else cr\<lparr>temperingValvePosition := 6.0\<rparr>)"

text \<open>The statements of \<^verbatim>\<open>controlValves\<close> between the PID call and the assignment of
  the tempering position: the floor by outdoor band and the limit of 0.4 V per tick from
  the last position (\<^verbatim>\<open>lastOutput || 5.0\<close>).\<close>

definition temperingSlew :: "real \<Rightarrow> real \<Rightarrow> real \<Rightarrow> real" where
  "temperingSlew outdoorTemp out lastOut =
     (let tp0 = (if outdoorTemp < 35 then max out 6.8
                 else if outdoorTemp < 40 then max out 5.2
                 else out);
          lastPosition = (if lastOut = 0 then 5.0 else lastOut)
      in if \<bar>tp0 - lastPosition\<bar> > 0.4
         then lastPosition + (if tp0 > lastPosition then 0.4 else - 0.4)
         else tp0)"

text \<open>The cold-weather block of \<^verbatim>\<open>controlValves\<close>
  (\<^verbatim>\<open>if (pidControllerImproved && controlResult.systemEnabled) { try ... } else ...\<close>).
  The PID parameters of the valve loop (kp 2.5, ki 0.15, kd 0.05, output 2 to 10,
  maxIntegral 50) go to the library with the controller type \<^verbatim>\<open>valve_control\<close>; the
  library is a parameter here, so they do not appear.\<close>

definition coldWeatherTempering ::
  "pid_controller option \<Rightarrow> sensor_data \<Rightarrow> control_result \<times> state_storage
     \<Rightarrow> control_result \<times> state_storage" where
  "coldWeatherTempering pid sd crst =
     (let (cr, st) = crst;
          hpLoopTemp = (hpSupply (temps sd) + hpReturn (temps sd)) / 2;
          fallback = (applyFallbackValveControl (outdoor (temps sd)) cr, st)
      in (case pid of
            None \<Rightarrow> fallback
          | Some f \<Rightarrow>
              if systemEnabled cr then
                (case f ''valve_control'' hpLoopTemp 45.0 7 (valve_pid (pidStates st)) of
                   None \<Rightarrow> fallback
                 | Some (out, ps') \<Rightarrow>
                     (let tp = temperingSlew (outdoor (temps sd)) out (lastOutput ps')
                      in (cr\<lparr>temperingValvePosition := tp\<rparr>,
                          st\<lparr>pidStates := (pidStates st)\<lparr>valve_pid := ps'\<lparr>lastOutput := tp\<rparr>\<rparr>\<rparr>)))
              else fallback))"

definition controlValves ::
  "pid_controller option \<Rightarrow> sensor_data \<Rightarrow> control_result \<times> state_storage \<Rightarrow> ui_commands
     \<Rightarrow> control_result \<times> state_storage" where
  "controlValves pid sd crst ui =
     (let (cr, st) = crst;
          cr1 = (case ui_bypassValvePosition ui of
                   None \<Rightarrow> cr
                 | Some v \<Rightarrow> cr\<lparr>bypassValvePosition := max 2.0 (min 10.0 v)\<rparr>)
      in (case ui_temperingValvePosition ui of
            Some v \<Rightarrow> (cr1\<lparr>temperingValvePosition := max 2.0 (min 10.0 v)\<rparr>, st)
          | None \<Rightarrow>
              if outdoor (temps sd) \<ge> 42 then
                (cr1\<lparr>bypassValvePosition := 2.0, temperingValvePosition := 2.0\<rparr>,
                 st\<lparr>pidStates := (pidStates st)\<lparr>valve_pid :=
                       (valve_pid (pidStates st))\<lparr>integral := 0, lastOutput := 2.0\<rparr>\<rparr>\<rparr>)
              else
                (let (cr2, st2) = coldWeatherTempering pid sd (cr1, st)
                 in (cr2\<lparr>bypassValvePosition := 2.0\<rparr>, st2))))"

definition controlHeaters :: "real \<Rightarrow> control_result \<Rightarrow> control_result" where
  "controlHeaters outdoorTemp cr =
     (if outdoorTemp < 35 then cr\<lparr>towerHeaterEnable := all3 True\<rparr>
      else if outdoorTemp > 45 then cr\<lparr>towerHeaterEnable := all3 False\<rparr>
      else cr)"

subsection \<open>Monitoring, manual overrides, summary\<close>

definition vfdWarning :: "nat \<Rightarrow> string" where
  "vfdWarning n = ''TOWER'' @ numStr n @ ''_HIGH_VFD_CURRENT_WARNING (ID: '' @ EQUIPMENT_ID n @ '')''"

definition vibrationWarning :: "nat \<Rightarrow> string" where
  "vibrationWarning n = ''TOWER'' @ numStr n @ ''_HIGH_VIBRATION_WARNING (ID: '' @ EQUIPMENT_ID n @ '')''"

text \<open>One VFD leg in the first loop of \<^verbatim>\<open>applyCurrentAndVibrationMonitoring\<close>.\<close>

definition legWarning :: "nat \<Rightarrow> real \<Rightarrow> string list \<times> control_result \<Rightarrow> string list \<times> control_result" where
  "legWarning n current wcr =
     (let (warnings, cr) = wcr
      in if current > VFD_CURRENT_WARNING \<and> current \<le> VFD_CURRENT_CRITICAL then
           (warnings @ [vfdWarning n],
            if get3 0 (towerFanSpeed cr) n > VFD_LOW_SPEED
            then cr\<lparr>towerFanSpeed := set3 n VFD_LOW_SPEED (towerFanSpeed cr)\<rparr> else cr)
         else (warnings, cr))"

definition vibWarning :: "nat \<Rightarrow> real \<Rightarrow> string list" where
  "vibWarning n level =
     (if level > VIBRATION_WARNING_LIMIT \<and> level \<le> VIBRATION_CRITICAL_LIMIT
      then [vibrationWarning n] else [])"

definition applyCurrentAndVibrationMonitoring :: "config \<Rightarrow> sensor_data \<Rightarrow> control_result \<Rightarrow> control_result" where
  "applyCurrentAndVibrationMonitoring cfg sd cr =
     (let (w1, cr1) =
            (if \<not> BYPASS_CURRENT_LIMITS cfg then
               legWarning 3 (tower3B (vfdCurrents sd))
                (legWarning 3 (tower3A (vfdCurrents sd))
                 (legWarning 2 (tower2B (vfdCurrents sd))
                  (legWarning 2 (tower2A (vfdCurrents sd))
                   (legWarning 1 (tower1B (vfdCurrents sd))
                    (legWarning 1 (tower1A (vfdCurrents sd)) ([], cr))))))
             else ([], cr));
          warnings = w1 @
            (if \<not> BYPASS_VIBRATION_LIMITS cfg then
               vibWarning 1 (k1 (vibration sd)) @ vibWarning 2 (k2 (vibration sd)) @
               vibWarning 3 (k3 (vibration sd))
             else [])
      in if length warnings > 0
         then cr1\<lparr>alarmStatus := ''warning'', faultConditions := faultConditions cr1 @ warnings\<rparr>
         else cr1)"

definition override3 :: "'a option per3 \<Rightarrow> 'a per3 \<Rightarrow> 'a per3" where
  "override3 u x =
     \<lparr>k1 = (case k1 u of None \<Rightarrow> k1 x | Some v \<Rightarrow> v),
      k2 = (case k2 u of None \<Rightarrow> k2 x | Some v \<Rightarrow> v),
      k3 = (case k3 u of None \<Rightarrow> k3 x | Some v \<Rightarrow> v)\<rparr>"

definition applyManualOverrides :: "ui_commands \<Rightarrow> control_result \<Rightarrow> control_result" where
  "applyManualOverrides ui cr =
     cr\<lparr>systemEnabled := (case ui_systemEnabled ui of None \<Rightarrow> systemEnabled cr | Some b \<Rightarrow> b),
        controlMode := (case ui_controlMode ui of None \<Rightarrow> controlMode cr | Some m \<Rightarrow> m),
        towerVFDEnable := override3 (ui_towerVFDEnable ui) (towerVFDEnable cr),
        towerFanSpeed := override3 (ui_towerFanSpeed ui) (towerFanSpeed cr),
        towerHeaterEnable := override3 (ui_towerHeaterEnable ui) (towerHeaterEnable cr)\<rparr>"

text \<open>The body of the last loop of \<^verbatim>\<open>updateControlResultSummary\<close> for tower \<open>i\<close>.\<close>

definition belowMinimumOff :: "nat \<Rightarrow> control_result \<Rightarrow> control_result" where
  "belowMinimumOff i cr =
     (if get3 0 (towerFanSpeed cr) i > 0 \<and> get3 0 (towerFanSpeed cr) i < VFD_MIN_SPEED
      then cr\<lparr>towerFanSpeed := set3 i 0 (towerFanSpeed cr),
              towerVFDEnable := set3 i False (towerVFDEnable cr)\<rparr>
      else cr)"

definition updateControlResultSummary :: "control_result \<Rightarrow> staging_decision \<Rightarrow> sensor_data \<Rightarrow> control_result" where
  "updateControlResultSummary cr sdec sd =
     belowMinimumOff 3 (belowMinimumOff 2 (belowMinimumOff 1
       (cr\<lparr>cr_leadTower := sd_leadTower sdec, activeTowers := demandedTowers sdec,
           coolingDemand := sd_coolingDemand sdec, loopDeltaT := deltaT sdec,
           targetSupplyTemp := targetSetpoint sd\<rparr>)))"

subsection \<open>The control function\<close>

text \<open>The automatic control sequence of \<^verbatim>\<open>processCoolingTowerControl\<close>: the
  statements from \<^verbatim>\<open>performLeadTowerRotation\<close> to the final \<^verbatim>\<open>return\<close>.\<close>

definition automaticControlSequence ::
  "config \<Rightarrow> pid_controller option \<Rightarrow> int \<Rightarrow> sensor_data \<Rightarrow> ui_commands
     \<Rightarrow> control_result \<times> state_storage \<Rightarrow> control_result \<times> state_storage" where
  "automaticControlSequence cfg pid now sd ui crst =
     (let st2 = performLeadTowerRotation cfg now (snd crst);
          sdec = calculateStaging sd st2;
          crst3 = controlPumps cfg now sd (fst crst, st2);
          crst4 = controlTowers cfg pid now sdec sd crst3;
          (cr5, st5) = controlValves pid sd crst4 ui;
          cr6 = controlHeaters (outdoor (temps sd)) cr5;
          cr7 = applyCurrentAndVibrationMonitoring cfg sd cr6;
          cr8 = updateControlResultSummary cr7 sdec sd
      in (cr8, st5))"

text \<open>\<^verbatim>\<open>processCoolingTowerControl\<close>: the returned control result and the carried
  state after the call. With inputs of the types above no statement of the function
  throws (an exception of the PID library is caught where it is called), so the
  \<^verbatim>\<open>catch\<close> branch with \<^verbatim>\<open>createSafeDefaultState\<close> is not reached.\<close>

definition processCoolingTowerControl ::
  "config \<Rightarrow> pid_controller option \<Rightarrow> int \<Rightarrow> sensor_input \<Rightarrow> ui_commands \<Rightarrow> raw_storage
     \<Rightarrow> control_result \<times> state_storage" where
  "processCoolingTowerControl cfg pid now dat ui stateStorage =
     (let st0 = initializeState now stateStorage;
          (sd, g) = parseSensorData dat (lastGoodTemps st0);
          st1 = st0\<lparr>lastGoodTemps := g\<rparr>;
          cr0 = initializeControlResult now sd;
          (safe, cr1) = performSafetyChecks cfg sd cr0
      in if \<not> safe then (cr1, st1)
         else
           (let cr2 = applyManualOverrides ui cr1
            in if \<not> systemEnabled cr2 \<or> controlMode cr2 \<noteq> ''auto'' then (cr2, st1)
               else automaticControlSequence cfg pid now sd ui (cr2, st1)))"

section \<open>Definitions that follow the specification, and inputs of the scenarios\<close>

definition clamp :: "real \<Rightarrow> real \<Rightarrow> real \<Rightarrow> real" where
  "clamp x lo hi = max lo (min hi x)"

text \<open>The number of towers whose start time is set.\<close>

definition startedCount :: "state_storage \<Rightarrow> nat" where
  "startedCount st = length (filter (\<lambda>i. startTime (timerOf st i) \<noteq> None) [1, 2, 3])"

text \<open>The decision table of the staging decider as the specification gives it: the
  demanded number of towers and the demand in percent.\<close>

definition stagingTable :: "real \<Rightarrow> real \<Rightarrow> real \<Rightarrow> nat \<Rightarrow> nat \<times> real" where
  "stagingTable dT hp ts running =
     (if dT < -15 \<or> hp < 65 \<or> ts < 50 then (0, 0)
      else if running > 0 \<and> dT \<ge> -5 then (max 1 running, clamp (28 + 3 * dT) 28 100)
      else if dT \<ge> 35 then (3, 100)
      else if dT \<ge> 30 then (3, 75)
      else if dT \<ge> 20 then (2, 60)
      else if dT \<ge> 10 then (1, clamp (28 + 2 * (dT - 10)) 28 50)
      else (0, 0))"

text \<open>A critical fault condition as the specification lists them, on the parsed
  readings.\<close>

definition criticalFaultPresent :: "config \<Rightarrow> sensor_data \<Rightarrow> bool" where
  "criticalFaultPresent cfg sd =
     ((\<not> BYPASS_VIBRATION_LIMITS cfg \<and>
       (k1 (vibration sd) > 7.1 \<or> k2 (vibration sd) > 7.1 \<or> k3 (vibration sd) > 7.1)) \<or>
      (\<not> BYPASS_CURRENT_LIMITS cfg \<and>
       (tower1A (vfdCurrents sd) > 45 \<or> tower1B (vfdCurrents sd) > 45 \<or>
        tower2A (vfdCurrents sd) > 45 \<or> tower2B (vfdCurrents sd) > 45 \<or>
        tower3A (vfdCurrents sd) > 45 \<or> tower3B (vfdCurrents sd) > 45 \<or>
        k1 (pumpCurrents sd) > 45 \<or> k2 (pumpCurrents sd) > 45 \<or> k3 (pumpCurrents sd) > 45)))"

text \<open>The sensor data a tick works with.\<close>

definition parsed :: "int \<Rightarrow> sensor_input \<Rightarrow> raw_storage \<Rightarrow> sensor_data" where
  "parsed now dat stateStorage =
     fst (parseSensorData dat (lastGoodTemps (initializeState now stateStorage)))"

definition no_input :: sensor_input where
  "no_input = \<lparr>AI1 = JUndef, AI2 = JUndef, AI3 = JUndef, AI4 = JUndef, AI5 = JUndef, AI6 = JUndef,
                CH1 = JUndef, CH2 = JUndef, CH5 = JUndef, CH6 = JUndef, CH8 = JUndef,
                CH9 = JUndef, CH10 = JUndef, WTV801_1 = JUndef, WTV801_2 = JUndef,
                WTV801_3 = JUndef, in_outdoorTemp = JUndef, userSetpoint = JUndef,
                in_targetSupplyTemp = JUndef\<rparr>"

text \<open>Tower 1 vibrates at 8 mm/s; every other key is missing.\<close>

definition vib_input :: sensor_input where
  "vib_input = no_input\<lparr>WTV801_1 := JStr 8\<rparr>"

text \<open>The reading of a raw channel as the specification takes it: a missing key reads 0.\<close>

definition channelReading :: "raw \<Rightarrow> real" where
  "channelReading v = (case v of JUndef \<Rightarrow> 0 | JNum r \<Rightarrow> r | JStr r \<Rightarrow> r)"

text \<open>A critical fault condition on the raw input, by channel: the vibration of tower 1,
  2, 3 on WTV801_1, WTV801_2, WTV801_3; the two VFD legs of tower 1 on AI1 and AI2, of
  tower 2 on AI3 and AI4, of tower 3 on AI5 and AI6; the current of pump 1, 2, 3 on CH8,
  CH5, CH6.\<close>

definition criticalFaultOnInput :: "config \<Rightarrow> sensor_input \<Rightarrow> bool" where
  "criticalFaultOnInput cfg dat =
     ((\<not> BYPASS_VIBRATION_LIMITS cfg \<and>
       (channelReading (WTV801_1 dat) > 7.1 \<or> channelReading (WTV801_2 dat) > 7.1 \<or>
        channelReading (WTV801_3 dat) > 7.1)) \<or>
      (\<not> BYPASS_CURRENT_LIMITS cfg \<and>
       (channelReading (AI1 dat) > 45 \<or> channelReading (AI2 dat) > 45 \<or>
        channelReading (AI3 dat) > 45 \<or> channelReading (AI4 dat) > 45 \<or>
        channelReading (AI5 dat) > 45 \<or> channelReading (AI6 dat) > 45 \<or>
        channelReading (CH8 dat) > 45 \<or> channelReading (CH5 dat) > 45 \<or>
        channelReading (CH6 dat) > 45)))"

text \<open>The fault list of the safe-shutdown output, text by text: one entry for each
  reading over its limit, the vibration faults first, then the VFD legs, then the
  pumps.\<close>

definition shutdownFaultList :: "config \<Rightarrow> sensor_input \<Rightarrow> string list" where
  "shutdownFaultList cfg dat =
     (if BYPASS_VIBRATION_LIMITS cfg then []
      else
        (if channelReading (WTV801_1 dat) > 7.1
         then [''TOWER1_HIGH_VIBRATION_CRITICAL (ID: QNiHngLxledu7BHM9wLi)''] else []) @
        (if channelReading (WTV801_2 dat) > 7.1
         then [''TOWER2_HIGH_VIBRATION_CRITICAL (ID: H2lwkgXBNDsvnuKoDUQe)''] else []) @
        (if channelReading (WTV801_3 dat) > 7.1
         then [''TOWER3_HIGH_VIBRATION_CRITICAL (ID: QYTVSM7IMylxDc2Y0pxr)''] else [])) @
     (if BYPASS_CURRENT_LIMITS cfg then []
      else
        (if channelReading (AI1 dat) > 45
         then [''TOWER1_CRITICAL_VFD_CURRENT (ID: QNiHngLxledu7BHM9wLi)''] else []) @
        (if channelReading (AI2 dat) > 45
         then [''TOWER1_CRITICAL_VFD_CURRENT (ID: QNiHngLxledu7BHM9wLi)''] else []) @
        (if channelReading (AI3 dat) > 45
         then [''TOWER2_CRITICAL_VFD_CURRENT (ID: H2lwkgXBNDsvnuKoDUQe)''] else []) @
        (if channelReading (AI4 dat) > 45
         then [''TOWER2_CRITICAL_VFD_CURRENT (ID: H2lwkgXBNDsvnuKoDUQe)''] else []) @
        (if channelReading (AI5 dat) > 45
         then [''TOWER3_CRITICAL_VFD_CURRENT (ID: QYTVSM7IMylxDc2Y0pxr)''] else []) @
        (if channelReading (AI6 dat) > 45
         then [''TOWER3_CRITICAL_VFD_CURRENT (ID: QYTVSM7IMylxDc2Y0pxr)''] else []) @
        (if channelReading (CH8 dat) > 45
         then [''PUMP1_OVERCURRENT (Tower ID: QNiHngLxledu7BHM9wLi)''] else []) @
        (if channelReading (CH5 dat) > 45
         then [''PUMP2_OVERCURRENT (Tower ID: H2lwkgXBNDsvnuKoDUQe)''] else []) @
        (if channelReading (CH6 dat) > 45
         then [''PUMP3_OVERCURRENT (Tower ID: QYTVSM7IMylxDc2Y0pxr)''] else []))"

text \<open>Tower 2 vibrates at 8 mm/s, the second VFD leg of tower 2 draws 50 A and pump 3
  draws 46 A; every other key is missing.\<close>

definition fault_input :: sensor_input where
  "fault_input = no_input\<lparr>WTV801_2 := JStr 8, AI4 := JNum 50, CH6 := JStr 46\<rparr>"

text \<open>HP supply 90 degrees F, outdoor 80 degrees F; every other key is missing.\<close>

definition warm_input :: sensor_input where
  "warm_input = no_input\<lparr>CH2 := JStr 90, in_outdoorTemp := JStr 80\<rparr>"

text \<open>The voltage the ramp filter starts a call from: a current voltage of 0 is set to
  the minimum speed first.\<close>

definition rampBase :: "ramp_state \<Rightarrow> real" where
  "rampBase rs = (if currentSpeed rs = 0 then VFD_MIN_SPEED else currentSpeed rs)"


definition isTower :: "nat \<Rightarrow> bool" where
  "isTower i = (i = 1 \<or> i = 2 \<or> i = 3)"

text \<open>What a tick commands for tower \<open>i\<close>, with the tower's timer pair.\<close>

record tower_view =
  v_enable :: bool
  v_speed :: real
  v_open :: bool
  v_close :: bool
  v_timer :: timer

definition towerView :: "control_result \<times> state_storage \<Rightarrow> nat \<Rightarrow> tower_view" where
  "towerView crst i =
     \<lparr>v_enable = get3 False (towerVFDEnable (fst crst)) i,
      v_speed = get3 0 (towerFanSpeed (fst crst)) i,
      v_open = get3 False (towerIsolationValveOpen (fst crst)) i,
      v_close = get3 False (towerIsolationValveClose (fst crst)) i,
      v_timer = timerOf (snd crst) i\<rparr>"

text \<open>Force ON: enable asserted, speed at the minimum, valve open, valve-close cleared.\<close>

definition forcedOn :: "tower_view \<Rightarrow> tower_view" where
  "forcedOn v = v\<lparr>v_enable := True, v_speed := VFD_MIN_SPEED, v_open := True, v_close := False\<rparr>"

text \<open>Stop: the start time cleared, the stop time written.\<close>

definition stopped :: "int \<Rightarrow> tower_view \<Rightarrow> tower_view" where
  "stopped now v = v\<lparr>v_timer := (v_timer v)\<lparr>startTime := None, stopTime := Some now\<rparr>\<rparr>"

text \<open>The runtime enforcer on one tower.\<close>

definition enforceView :: "int \<Rightarrow> sensor_data \<Rightarrow> tower_view \<Rightarrow> tower_view" where
  "enforceView now sd v =
     (case startTime (v_timer v) of
        None \<Rightarrow> v
      | Some start \<Rightarrow>
          if start \<noteq> 0 \<and> \<not> v_enable v then
            (if real_of_int (now - start) / 1000 < 420 then forcedOn v
             else if hpSupply (temps sd) - targetSetpoint sd < -10 then stopped now v
             else forcedOn v)
          else v)"

text \<open>A fan speed that is 0 or not below the minimum.\<close>

definition speedOK :: "real \<Rightarrow> bool" where
  "speedOK x = (x = 0 \<or> VFD_MIN_SPEED \<le> x)"

definition speedsOK :: "real per3 \<Rightarrow> bool" where
  "speedsOK x = (speedOK (k1 x) \<and> speedOK (k2 x) \<and> speedOK (k3 x))"

text \<open>Instants and states of the scenarios: tower 1 started at the given instant, the
  other timers empty, everything else as \<^verbatim>\<open>initializeState\<close> leaves it at \<open>T0\<close>.\<close>

definition T0 :: int where
  "T0 = 1000000"

definition running_storage :: "int \<Rightarrow> raw_storage" where
  "running_storage start =
     carried ((initializeState T0 empty_storage)
       \<lparr>towers := (towers (initializeState T0 empty_storage))
          \<lparr>timers := \<lparr>k1 = \<lparr>startTime = Some start, stopTime = None\<rparr>,
                       k2 = \<lparr>startTime = None, stopTime = None\<rparr>,
                       k3 = \<lparr>startTime = None, stopTime = None\<rparr>\<rparr>\<rparr>\<rparr>)"

text \<open>HP supply 64 degrees F with a setpoint of 70 degrees F.\<close>

definition cold_input :: sensor_input where
  "cold_input = no_input\<lparr>CH2 := JStr 64, userSetpoint := JStr 70\<rparr>"

text \<open>A fan speed within the range of the VFD.\<close>

definition vfdRange :: "real \<Rightarrow> bool" where
  "vfdRange x = (VFD_MIN_SPEED \<le> x \<and> x \<le> VFD_MAX_SPEED)"

text \<open>The UI commands leave the system enabled and in automatic mode.\<close>

definition autoMode :: "ui_commands \<Rightarrow> bool" where
  "autoMode ui = (ui_systemEnabled ui \<noteq> Some False \<and>
                  (ui_controlMode ui = None \<or> ui_controlMode ui = Some ''auto''))"

text \<open>The UI commands disable the system or select a mode other than automatic.\<close>

definition manualMode :: "ui_commands \<Rightarrow> bool" where
  "manualMode ui = (ui_systemEnabled ui = Some False \<or>
                    (case ui_controlMode ui of None \<Rightarrow> False | Some m \<Rightarrow> m \<noteq> ''auto''))"

text \<open>The state and the control result a tick without critical fault goes on with:
  the initialized state with the new last-good temperatures, and the fresh control
  result after the safety checks and the manual overrides.\<close>

definition tickState :: "int \<Rightarrow> sensor_input \<Rightarrow> raw_storage \<Rightarrow> state_storage" where
  "tickState now dat stateStorage =
     (initializeState now stateStorage)\<lparr>lastGoodTemps :=
         snd (parseSensorData dat (lastGoodTemps (initializeState now stateStorage)))\<rparr>"

definition tickResult :: "config \<Rightarrow> int \<Rightarrow> sensor_data \<Rightarrow> ui_commands \<Rightarrow> control_result" where
  "tickResult cfg now sd ui =
     applyManualOverrides ui
       ((initializeControlResult now sd)\<lparr>faultConditions := [], safetyBypasses := bypassList cfg\<rparr>)"

text \<open>HP supply 68 degrees F with the default setpoint of 75 degrees F.\<close>

definition mild_input :: sensor_input where
  "mild_input = no_input\<lparr>CH2 := JStr 68\<rparr>"

text \<open>What the tower commander leaves when it enables no tower.\<close>

definition off_result :: control_result where
  "off_result = (initializeControlResult T0 (parsed T0 cold_input empty_storage))
     \<lparr>towerIsolationValveClose := all3 True\<rparr>"


text \<open>The pump failover scenario: pump 1 active, no changeover, the last failover 60 s
  before \<open>T0\<close>, pump 1 drawing 2 A; three ticks, 6 s apart.\<close>

definition failover_storage :: raw_storage where
  "failover_storage =
     carried ((initializeState T0 empty_storage)
       \<lparr>pumps := (pumps (initializeState T0 empty_storage))\<lparr>lastFailoverTime := T0 - 60000\<rparr>\<rparr>)"

definition failover_input :: sensor_input where
  "failover_input = no_input\<lparr>CH8 := JStr 2\<rparr>"

definition failover_step1 :: "control_result \<times> state_storage" where
  "failover_step1 = processCoolingTowerControl COOLING_TOWER_CONFIG None T0 failover_input
     no_commands failover_storage"

definition failover_step2 :: "control_result \<times> state_storage" where
  "failover_step2 = processCoolingTowerControl COOLING_TOWER_CONFIG None (T0 + 6000) failover_input
     no_commands (carried (snd failover_step1))"

definition failover_step3 :: "control_result \<times> state_storage" where
  "failover_step3 = processCoolingTowerControl COOLING_TOWER_CONFIG None (T0 + 12000) failover_input
     no_commands (carried (snd failover_step2))"

text \<open>The UI commands a bypass valve position of 5 V and nothing else.\<close>

definition bypass_only_commands :: ui_commands where
  "bypass_only_commands = no_commands\<lparr>ui_bypassValvePosition := Some 5\<rparr>"

text \<open>Two consecutive ticks: outdoor 30 degrees F, then outdoor 40 degrees F.\<close>

definition freezing_input :: sensor_input where
  "freezing_input = no_input\<lparr>in_outdoorTemp := JStr 30\<rparr>"

definition band_input :: sensor_input where
  "band_input = no_input\<lparr>in_outdoorTemp := JStr 40\<rparr>"

definition heater_tick1 :: "control_result \<times> state_storage" where
  "heater_tick1 = processCoolingTowerControl COOLING_TOWER_CONFIG None T0 freezing_input
     no_commands empty_storage"

definition heater_tick2 :: "control_result \<times> state_storage" where
  "heater_tick2 = processCoolingTowerControl COOLING_TOWER_CONFIG None (T0 + 7000) band_input
     no_commands (carried (snd heater_tick1))"

text \<open>The UI disables the system and switches the heater of tower 1 on.\<close>

definition heater_override_commands :: ui_commands where
  "heater_override_commands =
     no_commands\<lparr>ui_systemEnabled := Some False,
                 ui_towerHeaterEnable := \<lparr>k1 = Some True, k2 = None, k3 = None\<rparr>\<rparr>"

section \<open>Properties\<close>

subsection \<open>Helper lemmas\<close>

lemma timerOf_simps:
  "timerOf st 1 = k1 (timers (towers st))"
  "timerOf st 2 = k2 (timers (towers st))"
  "timerOf st 3 = k3 (timers (towers st))"
  "timerOf st (Suc 0) = k1 (timers (towers st))"
  by (simp_all add: timerOf_def get3_def)

lemma count_eq:
  assumes "startTime (timerOf st 1) \<noteq> Some 0" "startTime (timerOf st 2) \<noteq> Some 0"
    "startTime (timerOf st 3) \<noteq> Some 0"
  shows "getCurrentlyRunningTowerCount st = startedCount st"
  using assms
  by (auto simp add: getCurrentlyRunningTowerCount_def startedCount_def timerOf_simps truthy_def
      split: option.splits)

lemma any_eq: "isAnyTowerCurrentlyRunning st = (startedCount st > 0)"
  by (auto simp add: isAnyTowerCurrentlyRunning_def startedCount_def timerOf_simps)

lemma criticalFaults_empty: "(criticalFaults cfg sd = []) = (\<not> criticalFaultPresent cfg sd)"
  by (auto simp add: criticalFaults_def criticalFaultPresent_def)

lemma initializeState_towers: "raw_towers s = Some t \<Longrightarrow> towers (initializeState now s) = t"
  by (simp add: initializeState_def)

lemma initializeState_pumps: "raw_pumps s = Some p \<Longrightarrow> pumps (initializeState now s) = p"
  by (simp add: initializeState_def)

text \<open>The path of a tick with a critical fault: the result of the safety checks and the
  initialized state with the new last-good temperatures.\<close>

lemma process_unsafe:
  assumes "criticalFaultPresent cfg (parsed now dat stateStorage)"
  shows "processCoolingTowerControl cfg pid now dat ui stateStorage =
     (snd (performSafetyChecks cfg (parsed now dat stateStorage)
             (initializeControlResult now (parsed now dat stateStorage))),
      (initializeState now stateStorage)\<lparr>lastGoodTemps :=
         snd (parseSensorData dat (lastGoodTemps (initializeState now stateStorage)))\<rparr>)"
proof -
  obtain sd g where p: "parseSensorData dat (lastGoodTemps (initializeState now stateStorage)) = (sd, g)"
    by (cases "parseSensorData dat (lastGoodTemps (initializeState now stateStorage))")
  have sd: "parsed now dat stateStorage = sd"
    by (simp add: parsed_def p)
  have "criticalFaults cfg sd \<noteq> []"
    using assms by (simp add: criticalFaults_empty sd)
  then show ?thesis
    by (simp add: processCoolingTowerControl_def sd p performSafetyChecks_def Let_def)
qed

text \<open>\<^verbatim>\<open>applySpeedRamping\<close> in two cases.\<close>

lemma ramp_init:
  "(if currentSpeed rs = 0 then rs\<lparr>currentSpeed := VFD_MIN_SPEED, lastChange := now\<rparr> else rs) =
   rs\<lparr>currentSpeed := rampBase rs, lastChange := (if currentSpeed rs = 0 then now else lastChange rs)\<rparr>"
  by (simp add: rampBase_def)

lemma applySpeedRamping_eq:
  "applySpeedRamping now target rs =
     (if now - lastChange rs \<ge> 15000 \<and> \<bar>target - rampBase rs\<bar> > 0.1
      then (max VFD_MIN_SPEED (min VFD_MAX_SPEED
              (rampBase rs + sgn (target - rampBase rs) * min \<bar>target - rampBase rs\<bar> 0.3)),
            \<lparr>currentSpeed = rampBase rs + sgn (target - rampBase rs) * min \<bar>target - rampBase rs\<bar> 0.3,
             targetSpeed = target, lastChange = now\<rparr>)
      else (max VFD_MIN_SPEED (min VFD_MAX_SPEED (rampBase rs)),
            \<lparr>currentSpeed = rampBase rs, targetSpeed = target,
             lastChange = (if currentSpeed rs = 0 then now else lastChange rs)\<rparr>))"
  unfolding applySpeedRamping_def ramp_init Let_def
  by (cases "15000 \<le> now - lastChange rs"; cases "\<bar>target - rampBase rs\<bar> > 0.1"; simp)

lemma step_bound:
  fixes d :: real
  shows "\<bar>sgn d * min \<bar>d\<bar> 0.3\<bar> \<le> 0.3" "\<bar>d - sgn d * min \<bar>d\<bar> 0.3\<bar> \<le> \<bar>d\<bar>"
proof -
  show "\<bar>sgn d * min \<bar>d\<bar> 0.3\<bar> \<le> 0.3"
    by (cases "d < 0"; cases "d = 0"; simp add: sgn_real_def min_def)
  show "\<bar>d - sgn d * min \<bar>d\<bar> 0.3\<bar> \<le> \<bar>d\<bar>"
    by (cases "d < 0"; cases "d = 0"; simp add: sgn_real_def min_def)
qed

lemma speedsOK_set3: "speedsOK x \<Longrightarrow> speedOK v \<Longrightarrow> speedsOK (set3 n v x)"
  by (simp add: speedsOK_def set3_def)

lemma speedsOK_get3: "speedsOK x \<Longrightarrow> speedOK (get3 0 x i)"
  by (simp add: speedsOK_def get3_def speedOK_def)

lemma coldWeatherTempering_towers:
  "towerVFDEnable (fst (coldWeatherTempering pid sd crst)) = towerVFDEnable (fst crst)"
  "towerFanSpeed (fst (coldWeatherTempering pid sd crst)) = towerFanSpeed (fst crst)"
  "towers (snd (coldWeatherTempering pid sd crst)) = towers (snd crst)"
  by (simp_all add: coldWeatherTempering_def applyFallbackValveControl_def Let_def case_prod_beta
      split: option.split)

lemma controlValves_towers:
  "towerVFDEnable (fst (controlValves pid sd crst ui)) = towerVFDEnable (fst crst)"
  "towerFanSpeed (fst (controlValves pid sd crst ui)) = towerFanSpeed (fst crst)"
  "towers (snd (controlValves pid sd crst ui)) = towers (snd crst)"
  by (simp_all add: controlValves_def Let_def case_prod_beta coldWeatherTempering_towers
      split: option.split)

lemma controlHeaters_towers:
  "towerVFDEnable (controlHeaters t cr) = towerVFDEnable cr"
  "towerFanSpeed (controlHeaters t cr) = towerFanSpeed cr"
  by (simp_all add: controlHeaters_def)

lemma legWarning_towers:
  "towerVFDEnable (snd (legWarning n c wcr)) = towerVFDEnable (snd wcr)"
  "speedsOK (towerFanSpeed (snd wcr)) \<Longrightarrow> speedsOK (towerFanSpeed (snd (legWarning n c wcr)))"
  by (simp_all add: legWarning_def case_prod_beta speedsOK_set3 speedOK_def)

lemma monitoring_towers:
  "towerVFDEnable (applyCurrentAndVibrationMonitoring cfg sd cr) = towerVFDEnable cr"
  "speedsOK (towerFanSpeed cr) \<Longrightarrow> speedsOK (towerFanSpeed (applyCurrentAndVibrationMonitoring cfg sd cr))"
  by (simp_all add: applyCurrentAndVibrationMonitoring_def Let_def case_prod_beta legWarning_towers)

lemma belowMinimumOff_towers:
  "speedsOK (towerFanSpeed cr) \<Longrightarrow> belowMinimumOff i cr = cr"
  using speedsOK_get3 [of "towerFanSpeed cr" i]
  by (auto simp add: belowMinimumOff_def speedOK_def)

lemma summary_towers:
  "speedsOK (towerFanSpeed cr) \<Longrightarrow>
   towerVFDEnable (updateControlResultSummary cr sdec sd) = towerVFDEnable cr"
  by (simp add: updateControlResultSummary_def belowMinimumOff_towers)


lemma get3_set3:
  "get3 d (set3 j v x) i = (if i = j \<and> isTower i then v else get3 d x i)"
  by (simp add: get3_def set3_def isTower_def)

lemma towerView_forceOn:
  "towerView (forceOn j cr, st) i = (if i = j \<and> isTower i then forcedOn (towerView (cr, st) i) else towerView (cr, st) i)"
  by (auto simp add: towerView_def forceOn_def forcedOn_def get3_set3)

lemma towerView_stop:
  "towerView (cr, st\<lparr>towers := (towers st)\<lparr>timers := set3 j tm (timers (towers st))\<rparr>\<rparr>) i =
     (if i = j \<and> isTower i then (towerView (cr, st) i)\<lparr>v_timer := tm\<rparr> else towerView (cr, st) i)"
  by (auto simp add: towerView_def timerOf_def get3_set3)

lemma enforceOne_None:
  "startTime (timerOf st j) = None \<Longrightarrow> enforceOne now sd j (cr, st) = (cr, st)"
  by (simp add: enforceOne_def)

lemma enforceOne_Some:
  "startTime (timerOf st j) = Some start \<Longrightarrow>
   enforceOne now sd j (cr, st) =
     (if start \<noteq> 0 \<and> \<not> get3 False (towerVFDEnable cr) j then
        (if real_of_int (now - start) / 1000 < 420 then (forceOn j cr, st)
         else if hpSupply (temps sd) - targetSetpoint sd < -10 then
           (cr, st\<lparr>towers := (towers st)\<lparr>timers :=
                 set3 j ((timerOf st j)\<lparr>startTime := None, stopTime := Some now\<rparr>) (timers (towers st))\<rparr>\<rparr>)
         else (forceOn j cr, st))
      else (cr, st))"
  by (simp add: enforceOne_def)

lemma enforceView_None:
  "startTime (timerOf st j) = None \<Longrightarrow> enforceView now sd (towerView (cr, st) j) = towerView (cr, st) j"
  by (simp add: enforceView_def towerView_def)

lemma enforceView_Some:
  "startTime (timerOf st j) = Some start \<Longrightarrow>
   enforceView now sd (towerView (cr, st) j) =
     (if start \<noteq> 0 \<and> \<not> get3 False (towerVFDEnable cr) j then
        (if real_of_int (now - start) / 1000 < 420 then forcedOn (towerView (cr, st) j)
         else if hpSupply (temps sd) - targetSetpoint sd < -10 then stopped now (towerView (cr, st) j)
         else forcedOn (towerView (cr, st) j))
      else towerView (cr, st) j)"
  by (simp add: enforceView_def towerView_def)

lemma towerView_enforceOne:
  assumes "isTower j"
  shows "towerView (enforceOne now sd j crst) i =
     (if i = j then enforceView now sd (towerView crst i) else towerView crst i)"
proof (cases crst)
  case (Pair cr st)
  have s: "stopped now (towerView (cr, st) j) =
      (towerView (cr, st) j)\<lparr>v_timer := (timerOf st j)\<lparr>startTime := None, stopTime := Some now\<rparr>\<rparr>"
    by (simp add: stopped_def towerView_def)
  show ?thesis
  proof (cases "startTime (timerOf st j)")
    case None
    show ?thesis
      unfolding Pair enforceOne_None [OF None] using enforceView_None [OF None] by simp
  next
    case (Some start)
    show ?thesis
    proof (cases "i = j")
      case True
      show ?thesis
        unfolding Pair True enforceOne_Some [OF Some] enforceView_Some [OF Some] s
        using assms by (simp add: towerView_forceOn towerView_stop)
    next
      case False
      then show ?thesis
        unfolding Pair enforceOne_Some [OF Some]
        by (simp add: towerView_forceOn towerView_stop)
    qed
  qed
qed

lemma towerView_enforceMinimumRuntimes:
  assumes "isTower i"
  shows "towerView (enforceMinimumRuntimes now sd crst) i = enforceView now sd (towerView crst i)"
proof -
  have t: "isTower 1" "isTower 2" "isTower 3" "isTower (Suc 0)"
    by (simp_all add: isTower_def)
  from assms consider "i = 1" | "i = 2" | "i = 3"
    by (auto simp add: isTower_def)
  then show ?thesis
    by cases (simp_all add: enforceMinimumRuntimes_def towerView_enforceOne t)
qed


lemma clamp_range: "vfdRange (max VFD_MIN_SPEED (min VFD_MAX_SPEED x))"
  by (auto simp add: vfdRange_def max_def min_def)

lemma applySpeedRamping_range: "vfdRange (fst (applySpeedRamping now target rs))"
  unfolding applySpeedRamping_eq
  by (cases "now - lastChange rs \<ge> 15000 \<and> \<bar>target - rampBase rs\<bar> > 0.1")
     (simp_all only: if_True if_False simp_thms fst_conv clamp_range)

lemma vfdRange_min: "vfdRange VFD_MIN_SPEED" "vfdRange (13 / 5)"
  by (simp_all add: vfdRange_def)

lemma calculateTowerSpeed_range: "vfdRange (fst (calculateTowerSpeed pid now n demand sd st))"
  by (simp add: calculateTowerSpeed_def Let_def case_prod_beta applySpeedRamping_range vfdRange_min)

lemma vfdRange_speedOK: "vfdRange x \<Longrightarrow> speedOK x"
  by (simp add: vfdRange_def speedOK_def)

lemma enableTower_speeds:
  "speedsOK (towerFanSpeed (fst crst)) \<Longrightarrow>
   speedsOK (towerFanSpeed (fst (enableTower pid now n demand sd crst)))"
  by (simp add: enableTower_def Let_def case_prod_beta speedsOK_set3 vfdRange_speedOK
      calculateTowerSpeed_range)

lemma enableEach_speeds:
  "speedsOK (towerFanSpeed (fst crst)) \<Longrightarrow>
   speedsOK (towerFanSpeed (fst (enableEach cfg pid now demand sd ns crst)))"
  by (induction ns arbitrary: crst) (simp_all add: enableTower_speeds)

lemma speedsOK_views:
  "speedsOK (towerFanSpeed (fst crst)) =
     (speedOK (v_speed (towerView crst 1)) \<and> speedOK (v_speed (towerView crst 2)) \<and>
      speedOK (v_speed (towerView crst 3)))"
  by (simp add: speedsOK_def towerView_def get3_def)

lemma enforceView_speed:
  "speedOK (v_speed v) \<Longrightarrow> speedOK (v_speed (enforceView now sd v))"
  by (simp add: enforceView_def forcedOn_def stopped_def speedOK_def split: option.split)

lemma enforceView_enabled:
  assumes "startTime (v_timer (enforceView now sd v)) = Some start" "start \<noteq> 0"
    "real_of_int (now - start) / 1000 < 420"
  shows "v_enable (enforceView now sd v)"
proof (cases "startTime (v_timer v)")
  case None
  with assms show ?thesis by (simp add: enforceView_def)
next
  case (Some s)
  show ?thesis
  proof (cases "s \<noteq> 0 \<and> \<not> v_enable v")
    case False
    with assms Some show ?thesis by (auto simp add: enforceView_def)
  next
    case True
    show ?thesis
    proof (cases "real_of_int (now - s) / 1000 < 420")
      case t: True
      with True Some show ?thesis by (simp add: enforceView_def forcedOn_def)
    next
      case f: False
      show ?thesis
      proof (cases "hpSupply (temps sd) - targetSetpoint sd < -10")
        case c: True
        have "enforceView now sd v = stopped now v"
          using Some True f c by (simp add: enforceView_def)
        with assms(1) show ?thesis by (simp add: stopped_def)
      next
        case c: False
        with True f Some show ?thesis by (simp add: enforceView_def forcedOn_def)
      qed
    qed
  qed
qed

lemma enforceMinimumRuntimes_speeds:
  assumes "speedsOK (towerFanSpeed (fst crst))"
  shows "speedsOK (towerFanSpeed (fst (enforceMinimumRuntimes now sd crst)))"
proof -
  have t: "isTower 1" "isTower 2" "isTower 3" "isTower (Suc 0)"
    by (simp_all add: isTower_def)
  show ?thesis
    using assms unfolding speedsOK_views
    by (simp add: towerView_enforceMinimumRuntimes t enforceView_speed)
qed

lemma towerView_summary:
  "towerView (cr\<lparr>cr_leadTower := a, activeTowers := b, coolingDemand := c\<rparr>, st) i = towerView (cr, st) i"
  by (simp add: towerView_def)

text \<open>After the tower commander: each tower is as the runtime enforcer leaves it; the fan
  speeds are 0 or not below the minimum.\<close>

lemma controlTowers_view:
  assumes "isTower i"
  shows "\<exists>v. towerView (controlTowers cfg pid now sdec sd crst) i = enforceView now sd v"
proof -
  obtain cr1 st1 where e: "enforceMinimumRuntimes now sd
       (enableEach cfg pid now (sd_coolingDemand sdec) sd (towersToEnable sdec)
          ((fst crst)\<lparr>towerVFDEnable := all3 False, towerFanSpeed := all3 0,
                      towerIsolationValveOpen := all3 False,
                      towerIsolationValveClose := all3 True\<rparr>, snd crst)) = (cr1, st1)"
    by (cases "enforceMinimumRuntimes now sd
       (enableEach cfg pid now (sd_coolingDemand sdec) sd (towersToEnable sdec)
          ((fst crst)\<lparr>towerVFDEnable := all3 False, towerFanSpeed := all3 0,
                      towerIsolationValveOpen := all3 False,
                      towerIsolationValveClose := all3 True\<rparr>, snd crst))")
  have "towerView (controlTowers cfg pid now sdec sd crst) i = towerView (cr1, st1) i"
    by (simp add: controlTowers_def Let_def case_prod_beta e towerView_def)
  also have "\<dots> = enforceView now sd (towerView
       (enableEach cfg pid now (sd_coolingDemand sdec) sd (towersToEnable sdec)
          ((fst crst)\<lparr>towerVFDEnable := all3 False, towerFanSpeed := all3 0,
                      towerIsolationValveOpen := all3 False,
                      towerIsolationValveClose := all3 True\<rparr>, snd crst)) i)"
    unfolding e [symmetric] using assms by (rule towerView_enforceMinimumRuntimes)
  finally show ?thesis by blast
qed

lemma controlTowers_speeds:
  "speedsOK (towerFanSpeed (fst (controlTowers cfg pid now sdec sd crst)))"
proof -
  have z: "speedsOK (all3 0)"
    by (simp add: speedsOK_def speedOK_def all3_def)
  have "speedsOK (towerFanSpeed (fst (enforceMinimumRuntimes now sd
       (enableEach cfg pid now (sd_coolingDemand sdec) sd (towersToEnable sdec)
          ((fst crst)\<lparr>towerVFDEnable := all3 False, towerFanSpeed := all3 0,
                      towerIsolationValveOpen := all3 False,
                      towerIsolationValveClose := all3 True\<rparr>, snd crst)))))"
    by (rule enforceMinimumRuntimes_speeds, rule enableEach_speeds) (simp add: z)
  then show ?thesis
    by (simp add: controlTowers_def Let_def case_prod_beta)
qed

lemma process_safe:
  assumes "\<not> criticalFaultPresent cfg (parsed now dat stateStorage)"
  shows "processCoolingTowerControl cfg pid now dat ui stateStorage =
     (if \<not> systemEnabled (tickResult cfg now (parsed now dat stateStorage) ui) \<or>
         controlMode (tickResult cfg now (parsed now dat stateStorage) ui) \<noteq> ''auto''
      then (tickResult cfg now (parsed now dat stateStorage) ui, tickState now dat stateStorage)
      else automaticControlSequence cfg pid now (parsed now dat stateStorage) ui
             (tickResult cfg now (parsed now dat stateStorage) ui, tickState now dat stateStorage))"
proof -
  obtain sd g where p: "parseSensorData dat (lastGoodTemps (initializeState now stateStorage)) = (sd, g)"
    by (cases "parseSensorData dat (lastGoodTemps (initializeState now stateStorage))")
  have sd: "parsed now dat stateStorage = sd"
    by (simp add: parsed_def p)
  have c: "criticalFaults cfg sd = []"
    using assms by (simp add: criticalFaults_empty sd)
  have s: "performSafetyChecks cfg sd (initializeControlResult now sd) =
      (True, (initializeControlResult now sd)\<lparr>faultConditions := [], safetyBypasses := bypassList cfg\<rparr>)"
    by (simp add: performSafetyChecks_def c)
  show ?thesis
    unfolding processCoolingTowerControl_def sd tickState_def tickResult_def p Let_def prod.case s
    by simp
qed

lemma tickResult_mode:
  "systemEnabled (tickResult cfg now sd ui) = (ui_systemEnabled ui \<noteq> Some False)"
  "controlMode (tickResult cfg now sd ui) = (case ui_controlMode ui of None \<Rightarrow> ''auto'' | Some m \<Rightarrow> m)"
  by (auto simp add: tickResult_def applyManualOverrides_def initializeControlResult_def
      split: option.splits)

lemma process_auto:
  assumes "\<not> criticalFaultPresent cfg (parsed now dat stateStorage)" "autoMode ui"
  shows "processCoolingTowerControl cfg pid now dat ui stateStorage =
     automaticControlSequence cfg pid now (parsed now dat stateStorage) ui
       (tickResult cfg now (parsed now dat stateStorage) ui, tickState now dat stateStorage)"
proof -
  have "systemEnabled (tickResult cfg now (parsed now dat stateStorage) ui)"
    "controlMode (tickResult cfg now (parsed now dat stateStorage) ui) = ''auto''"
    using assms(2) by (auto simp add: tickResult_mode autoMode_def)
  then show ?thesis
    by (simp add: process_safe [OF assms(1)])
qed

lemma automatic_towers:
  assumes "isTower i"
  shows "\<exists>v. v_enable (towerView (automaticControlSequence cfg pid now sd ui crst) i) =
               v_enable (enforceView now sd v) \<and>
             v_timer (towerView (automaticControlSequence cfg pid now sd ui crst) i) =
               v_timer (enforceView now sd v)"
proof -
  define st2 where "st2 = performLeadTowerRotation cfg now (snd crst)"
  define sdec where "sdec = calculateStaging sd st2"
  define crst4 where "crst4 = controlTowers cfg pid now sdec sd (controlPumps cfg now sd (fst crst, st2))"
  define crst5 where "crst5 = controlValves pid sd crst4 ui"
  define cr7 where "cr7 = applyCurrentAndVibrationMonitoring cfg sd (controlHeaters (outdoor (temps sd)) (fst crst5))"
  have r: "automaticControlSequence cfg pid now sd ui crst =
      (updateControlResultSummary cr7 sdec sd, snd crst5)"
    by (simp add: automaticControlSequence_def Let_def case_prod_beta cr7_def crst5_def crst4_def
        sdec_def st2_def)
  have ok4: "speedsOK (towerFanSpeed (fst crst4))"
    unfolding crst4_def by (rule controlTowers_speeds)
  have ok7: "speedsOK (towerFanSpeed cr7)"
    unfolding cr7_def crst5_def
    by (simp add: monitoring_towers controlHeaters_towers controlValves_towers ok4)
  have e1: "towerVFDEnable (updateControlResultSummary cr7 sdec sd) = towerVFDEnable cr7"
    using ok7 by (rule summary_towers)
  have e2: "towerVFDEnable cr7 = towerVFDEnable (fst crst4)"
    by (simp add: cr7_def crst5_def monitoring_towers controlHeaters_towers controlValves_towers)
  have e: "towerVFDEnable (updateControlResultSummary cr7 sdec sd) = towerVFDEnable (fst crst4)"
    using e1 e2 by simp
  have t: "towers (snd crst5) = towers (snd crst4)"
    by (simp add: crst5_def controlValves_towers)
  obtain v where v: "towerView crst4 i = enforceView now sd v"
    unfolding crst4_def using controlTowers_view [OF assms] by blast
  have "v_enable (towerView (automaticControlSequence cfg pid now sd ui crst) i) = v_enable (towerView crst4 i)"
    "v_timer (towerView (automaticControlSequence cfg pid now sd ui crst) i) = v_timer (towerView crst4 i)"
    by (simp_all add: r towerView_def e t timerOf_def)
  then show ?thesis
    unfolding v by blast
qed


lemma process_manual:
  assumes "\<not> criticalFaultPresent cfg (parsed now dat stateStorage)" "manualMode ui"
  shows "processCoolingTowerControl cfg pid now dat ui stateStorage =
     (tickResult cfg now (parsed now dat stateStorage) ui, tickState now dat stateStorage)"
proof -
  have "\<not> systemEnabled (tickResult cfg now (parsed now dat stateStorage) ui) \<or>
    controlMode (tickResult cfg now (parsed now dat stateStorage) ui) \<noteq> ''auto''"
    using assms(2) by (auto simp add: tickResult_mode manualMode_def split: option.splits)
  then show ?thesis
    unfolding process_safe [OF assms(1)] by (simp only: if_True)
qed



text \<open>Pump and tower control leave the valve positions and the heater enables alone.\<close>

lemma controlPumps_frame:
  "towerHeaterEnable (fst (controlPumps cfg now sd crst)) = towerHeaterEnable (fst crst)"
  "bypassValvePosition (fst (controlPumps cfg now sd crst)) = bypassValvePosition (fst crst)"
  "temperingValvePosition (fst (controlPumps cfg now sd crst)) = temperingValvePosition (fst crst)"
  by (simp_all add: controlPumps_def Let_def case_prod_beta split: option.split)

lemma enableTower_frame:
  "towerHeaterEnable (fst (enableTower pid now n demand sd crst)) = towerHeaterEnable (fst crst)"
  "bypassValvePosition (fst (enableTower pid now n demand sd crst)) = bypassValvePosition (fst crst)"
  "temperingValvePosition (fst (enableTower pid now n demand sd crst)) = temperingValvePosition (fst crst)"
  by (simp_all add: enableTower_def Let_def case_prod_beta)

lemma enableEach_frame:
  "towerHeaterEnable (fst (enableEach cfg pid now demand sd ns crst)) = towerHeaterEnable (fst crst)"
  "bypassValvePosition (fst (enableEach cfg pid now demand sd ns crst)) = bypassValvePosition (fst crst)"
  "temperingValvePosition (fst (enableEach cfg pid now demand sd ns crst)) = temperingValvePosition (fst crst)"
  by (induction ns arbitrary: crst) (simp_all add: enableTower_frame)

lemma enforceOne_frame:
  "towerHeaterEnable (fst (enforceOne now sd i crst)) = towerHeaterEnable (fst crst)"
  "bypassValvePosition (fst (enforceOne now sd i crst)) = bypassValvePosition (fst crst)"
  "temperingValvePosition (fst (enforceOne now sd i crst)) = temperingValvePosition (fst crst)"
  by (simp_all add: enforceOne_def forceOn_def Let_def case_prod_beta split: option.split)

lemma controlTowers_frame:
  "towerHeaterEnable (fst (controlTowers cfg pid now sdec sd crst)) = towerHeaterEnable (fst crst)"
  "bypassValvePosition (fst (controlTowers cfg pid now sdec sd crst)) = bypassValvePosition (fst crst)"
  "temperingValvePosition (fst (controlTowers cfg pid now sdec sd crst)) = temperingValvePosition (fst crst)"
  by (simp_all add: controlTowers_def enforceMinimumRuntimes_def Let_def case_prod_beta
      enforceOne_frame enableEach_frame)

text \<open>So do the monitoring and the summary, which run after the valves and the heaters.\<close>

lemma legWarning_frame:
  "towerHeaterEnable (snd (legWarning n c wcr)) = towerHeaterEnable (snd wcr)"
  "bypassValvePosition (snd (legWarning n c wcr)) = bypassValvePosition (snd wcr)"
  "temperingValvePosition (snd (legWarning n c wcr)) = temperingValvePosition (snd wcr)"
  by (simp_all add: legWarning_def case_prod_beta)

lemma monitoring_frame:
  "towerHeaterEnable (applyCurrentAndVibrationMonitoring cfg sd cr) = towerHeaterEnable cr"
  "bypassValvePosition (applyCurrentAndVibrationMonitoring cfg sd cr) = bypassValvePosition cr"
  "temperingValvePosition (applyCurrentAndVibrationMonitoring cfg sd cr) = temperingValvePosition cr"
  by (simp_all add: applyCurrentAndVibrationMonitoring_def Let_def case_prod_beta legWarning_frame)

lemma belowMinimumOff_frame:
  "towerHeaterEnable (belowMinimumOff i cr) = towerHeaterEnable cr"
  "bypassValvePosition (belowMinimumOff i cr) = bypassValvePosition cr"
  "temperingValvePosition (belowMinimumOff i cr) = temperingValvePosition cr"
  by (simp_all add: belowMinimumOff_def)

lemma summary_frame:
  "towerHeaterEnable (updateControlResultSummary cr sdec sd) = towerHeaterEnable cr"
  "bypassValvePosition (updateControlResultSummary cr sdec sd) = bypassValvePosition cr"
  "temperingValvePosition (updateControlResultSummary cr sdec sd) = temperingValvePosition cr"
  by (simp_all add: updateControlResultSummary_def belowMinimumOff_frame)

lemma coldWeatherTempering_frame:
  "towerHeaterEnable (fst (coldWeatherTempering pid sd crst)) = towerHeaterEnable (fst crst)"
  "bypassValvePosition (fst (coldWeatherTempering pid sd crst)) = bypassValvePosition (fst crst)"
  by (simp_all add: coldWeatherTempering_def applyFallbackValveControl_def Let_def case_prod_beta
      split: option.split)

lemma controlValves_heaters:
  "towerHeaterEnable (fst (controlValves pid sd crst ui)) = towerHeaterEnable (fst crst)"
  by (simp add: controlValves_def Let_def case_prod_beta coldWeatherTempering_frame
      split: option.split)

text \<open>What \<^verbatim>\<open>controlValves\<close> returns for the bypass valve: without a tempering command
  2.0 V whatever the UI commands for the bypass valve; with one, the clamped bypass
  command, or the position it was called with.\<close>

lemma controlValves_bypass:
  "bypassValvePosition (fst (controlValves pid sd crst ui)) =
     (case ui_temperingValvePosition ui of
        None \<Rightarrow> 2
      | Some t \<Rightarrow> (case ui_bypassValvePosition ui of
                    None \<Rightarrow> bypassValvePosition (fst crst)
                  | Some b \<Rightarrow> clamp b 2 10))"
  by (simp add: controlValves_def Let_def case_prod_beta clamp_def split: option.split)

lemma controlValves_tempering:
  "ui_temperingValvePosition ui = Some t \<Longrightarrow>
   temperingValvePosition (fst (controlValves pid sd crst ui)) = clamp t 2 10"
  by (simp add: controlValves_def Let_def case_prod_beta clamp_def split: option.split)

lemma tickResult_outputs:
  "bypassValvePosition (tickResult cfg now sd ui) = 2"
  "towerHeaterEnable (tickResult cfg now sd ui) = override3 (ui_towerHeaterEnable ui) (all3 False)"
  by (simp_all add: tickResult_def applyManualOverrides_def initializeControlResult_def)

lemma automatic_outputs:
  "bypassValvePosition (fst (automaticControlSequence cfg pid now sd ui crst)) =
     (case ui_temperingValvePosition ui of
        None \<Rightarrow> 2
      | Some t \<Rightarrow> (case ui_bypassValvePosition ui of
                    None \<Rightarrow> bypassValvePosition (fst crst)
                  | Some b \<Rightarrow> clamp b 2 10))"
  "ui_temperingValvePosition ui = Some t \<Longrightarrow>
   temperingValvePosition (fst (automaticControlSequence cfg pid now sd ui crst)) = clamp t 2 10"
  "towerHeaterEnable (fst (automaticControlSequence cfg pid now sd ui crst)) =
     towerHeaterEnable (controlHeaters (outdoor (temps sd)) (fst crst))"
proof -
  define crst4 where "crst4 = controlTowers cfg pid now (calculateStaging sd (performLeadTowerRotation cfg now (snd crst))) sd
      (controlPumps cfg now sd (fst crst, performLeadTowerRotation cfg now (snd crst)))"
  have r: "fst (automaticControlSequence cfg pid now sd ui crst) =
      updateControlResultSummary (applyCurrentAndVibrationMonitoring cfg sd
        (controlHeaters (outdoor (temps sd)) (fst (controlValves pid sd crst4 ui))))
        (calculateStaging sd (performLeadTowerRotation cfg now (snd crst))) sd"
    by (simp add: automaticControlSequence_def Let_def case_prod_beta crst4_def)
  have h: "\<And>t cr. bypassValvePosition (controlHeaters t cr) = bypassValvePosition cr"
    "\<And>t cr. temperingValvePosition (controlHeaters t cr) = temperingValvePosition cr"
    by (simp_all add: controlHeaters_def)
  have f: "bypassValvePosition (fst crst4) = bypassValvePosition (fst crst)"
    "towerHeaterEnable (fst crst4) = towerHeaterEnable (fst crst)"
    by (simp_all add: crst4_def controlTowers_frame controlPumps_frame)
  show "bypassValvePosition (fst (automaticControlSequence cfg pid now sd ui crst)) =
     (case ui_temperingValvePosition ui of
        None \<Rightarrow> 2
      | Some t \<Rightarrow> (case ui_bypassValvePosition ui of
                    None \<Rightarrow> bypassValvePosition (fst crst)
                  | Some b \<Rightarrow> clamp b 2 10))"
    by (simp add: r summary_frame monitoring_frame h controlValves_bypass f split: option.split)
  show "ui_temperingValvePosition ui = Some t \<Longrightarrow>
   temperingValvePosition (fst (automaticControlSequence cfg pid now sd ui crst)) = clamp t 2 10"
    by (simp add: r summary_frame monitoring_frame h controlValves_tempering)
  show "towerHeaterEnable (fst (automaticControlSequence cfg pid now sd ui crst)) =
     towerHeaterEnable (controlHeaters (outdoor (temps sd)) (fst crst))"
    by (simp add: r summary_frame monitoring_frame controlHeaters_def controlValves_heaters f)
qed

text \<open>The valve and heater outputs of an automatic tick without critical fault.\<close>

lemma automatic_bypass_valve:
  assumes "\<not> criticalFaultPresent cfg (parsed now dat stateStorage)" "autoMode ui"
  shows "bypassValvePosition (fst (processCoolingTowerControl cfg pid now dat ui stateStorage)) =
     (case ui_temperingValvePosition ui of
        None \<Rightarrow> 2
      | Some t \<Rightarrow> (case ui_bypassValvePosition ui of None \<Rightarrow> 2 | Some b \<Rightarrow> clamp b 2 10))"
  by (simp add: process_auto [OF assms] automatic_outputs tickResult_outputs split: option.split)

lemma automatic_tempering_valve:
  assumes "\<not> criticalFaultPresent cfg (parsed now dat stateStorage)" "autoMode ui"
    "ui_temperingValvePosition ui = Some t"
  shows "temperingValvePosition (fst (processCoolingTowerControl cfg pid now dat ui stateStorage)) =
     clamp t 2 10"
  by (simp add: process_auto [OF assms(1,2)] automatic_outputs(2) [OF assms(3)])

lemma automatic_heaters:
  assumes "\<not> criticalFaultPresent cfg (parsed now dat stateStorage)" "autoMode ui"
  shows "towerHeaterEnable (fst (processCoolingTowerControl cfg pid now dat ui stateStorage)) =
     (if outdoor (temps (parsed now dat stateStorage)) < 35 then all3 True
      else if outdoor (temps (parsed now dat stateStorage)) > 45 then all3 False
      else override3 (ui_towerHeaterEnable ui) (all3 False))"
  by (simp add: process_auto [OF assms] automatic_outputs tickResult_outputs controlHeaters_def)

subsection \<open>C1: safe shutdown on a critical fault\<close>

text \<open>The readings the safety checks work with are those of the raw channels, and the
  fault list they build is the list of the fault texts, entry by entry.\<close>

lemma parseOr_zero:
  "parseOr v 0 = channelReading v"
  by (cases v) (simp_all add: parseOr_def channelReading_def)

lemma parsed_channels:
  "vibration (parsed now dat stateStorage) =
     \<lparr>k1 = channelReading (WTV801_1 dat), k2 = channelReading (WTV801_2 dat),
      k3 = channelReading (WTV801_3 dat)\<rparr>"
  "vfdCurrents (parsed now dat stateStorage) =
     \<lparr>tower1A = channelReading (AI1 dat), tower1B = channelReading (AI2 dat),
      tower2A = channelReading (AI3 dat), tower2B = channelReading (AI4 dat),
      tower3A = channelReading (AI5 dat), tower3B = channelReading (AI6 dat)\<rparr>"
  "pumpCurrents (parsed now dat stateStorage) =
     \<lparr>k1 = channelReading (CH8 dat), k2 = channelReading (CH5 dat),
      k3 = channelReading (CH6 dat)\<rparr>"
  by (simp_all add: parsed_def parseSensorData_def case_prod_beta Let_def parseOr_zero)

lemma fault_texts:
  "vibrationFault 1 = ''TOWER1_HIGH_VIBRATION_CRITICAL (ID: QNiHngLxledu7BHM9wLi)''"
  "vibrationFault 2 = ''TOWER2_HIGH_VIBRATION_CRITICAL (ID: H2lwkgXBNDsvnuKoDUQe)''"
  "vibrationFault 3 = ''TOWER3_HIGH_VIBRATION_CRITICAL (ID: QYTVSM7IMylxDc2Y0pxr)''"
  "vfdCurrentFault 1 = ''TOWER1_CRITICAL_VFD_CURRENT (ID: QNiHngLxledu7BHM9wLi)''"
  "vfdCurrentFault 2 = ''TOWER2_CRITICAL_VFD_CURRENT (ID: H2lwkgXBNDsvnuKoDUQe)''"
  "vfdCurrentFault 3 = ''TOWER3_CRITICAL_VFD_CURRENT (ID: QYTVSM7IMylxDc2Y0pxr)''"
  "pumpFault 1 = ''PUMP1_OVERCURRENT (Tower ID: QNiHngLxledu7BHM9wLi)''"
  "pumpFault 2 = ''PUMP2_OVERCURRENT (Tower ID: H2lwkgXBNDsvnuKoDUQe)''"
  "pumpFault 3 = ''PUMP3_OVERCURRENT (Tower ID: QYTVSM7IMylxDc2Y0pxr)''"
  by (simp_all add: vibrationFault_def vfdCurrentFault_def pumpFault_def numStr_def EQUIPMENT_ID_def)

lemma criticalFaults_texts:
  "criticalFaults cfg (parsed now dat stateStorage) = shutdownFaultList cfg dat"
  unfolding criticalFaults_def shutdownFaultList_def parsed_channels fault_texts
  by simp

lemma criticalFaultOnInput_parsed:
  "criticalFaultPresent cfg (parsed now dat stateStorage) = criticalFaultOnInput cfg dat"
  unfolding criticalFaultPresent_def criticalFaultOnInput_def parsed_channels
  by simp

text \<open>
  C1. For every input in which a critical fault condition holds on the raw channels (a
  tower vibration above 7.1 mm/s, a VFD leg current above 45 A or a pump current above
  45 A, the bypass flag of the check being false), the control function of the optimized
  version returns the safe-shutdown output: the three VFD enables false, the three fan
  speeds 0, the three valve-close commands asserted (and no valve-open command), every
  pump enable false, the heaters off, tempering and bypass valve at 2.0 V, the alarm
  status critical and the list of faults included, with one fault text for each reading
  over its limit. The tower state (timers, ramps) and the pump state after the call are
  those of the initialized state: what the caller handed over is returned as it was.
\<close>

theorem safe_shutdown_on_critical_fault:
  assumes fault: "criticalFaultOnInput cfg dat"
    and res: "processCoolingTowerControl cfg pid now dat ui stateStorage = (cr, st)"
  shows "towerVFDEnable cr = all3 False \<and> towerFanSpeed cr = all3 0 \<and>
         towerIsolationValveClose cr = all3 True \<and> towerIsolationValveOpen cr = all3 False \<and>
         pumpEnable cr = all3 False \<and> towerHeaterEnable cr = all3 False \<and>
         temperingValvePosition cr = 2.0 \<and> bypassValvePosition cr = 2.0 \<and>
         alarmStatus cr = ''critical'' \<and>
         faultConditions cr = shutdownFaultList cfg dat \<and>
         faultConditions cr \<noteq> [] \<and>
         towers st = towers (initializeState now stateStorage) \<and>
         pumps st = pumps (initializeState now stateStorage) \<and>
         (\<forall>t. raw_towers stateStorage = Some t \<longrightarrow> towers st = t) \<and>
         (\<forall>p. raw_pumps stateStorage = Some p \<longrightarrow> pumps st = p)"
proof -
  have present: "criticalFaultPresent cfg (parsed now dat stateStorage)"
    using fault by (simp add: criticalFaultOnInput_parsed)
  have ne: "criticalFaults cfg (parsed now dat stateStorage) \<noteq> []"
    using present by (simp add: criticalFaults_empty)
  have texts: "criticalFaults cfg (parsed now dat stateStorage) = shutdownFaultList cfg dat"
    by (rule criticalFaults_texts)
  have cr: "cr = snd (performSafetyChecks cfg (parsed now dat stateStorage)
             (initializeControlResult now (parsed now dat stateStorage)))"
    and st: "st = (initializeState now stateStorage)\<lparr>lastGoodTemps :=
         snd (parseSensorData dat (lastGoodTemps (initializeState now stateStorage)))\<rparr>"
    using res process_unsafe [OF present, of pid ui] by simp_all
  have out: "towerVFDEnable cr = all3 False \<and> towerFanSpeed cr = all3 0 \<and>
         towerIsolationValveClose cr = all3 True \<and> towerIsolationValveOpen cr = all3 False \<and>
         pumpEnable cr = all3 False \<and> towerHeaterEnable cr = all3 False \<and>
         temperingValvePosition cr = 2.0 \<and> bypassValvePosition cr = 2.0 \<and>
         alarmStatus cr = ''critical'' \<and>
         faultConditions cr = criticalFaults cfg (parsed now dat stateStorage)"
    using ne by (simp add: cr performSafetyChecks_def initializeControlResult_def Let_def)
  have state: "towers st = towers (initializeState now stateStorage) \<and>
         pumps st = pumps (initializeState now stateStorage) \<and>
         (\<forall>t. raw_towers stateStorage = Some t \<longrightarrow> towers st = t) \<and>
         (\<forall>p. raw_pumps stateStorage = Some p \<longrightarrow> pumps st = p)"
    by (simp add: st initializeState_towers initializeState_pumps)
  have fc: "faultConditions cr = shutdownFaultList cfg dat"
    using out texts by simp
  have nefc: "faultConditions cr \<noteq> []"
    using out ne by simp
  from out fc nefc state show ?thesis
    by blast
qed

theorem safe_shutdown_witness:
  "faultConditions (fst (processCoolingTowerControl COOLING_TOWER_CONFIG None 1000 fault_input
      no_commands empty_storage)) =
     [''TOWER2_HIGH_VIBRATION_CRITICAL (ID: H2lwkgXBNDsvnuKoDUQe)'',
      ''TOWER2_CRITICAL_VFD_CURRENT (ID: H2lwkgXBNDsvnuKoDUQe)'',
      ''PUMP3_OVERCURRENT (Tower ID: QYTVSM7IMylxDc2Y0pxr)''] \<and>
   alarmStatus (fst (processCoolingTowerControl COOLING_TOWER_CONFIG None 1000 fault_input
      no_commands empty_storage)) = ''critical'' \<and>
   bypassValvePosition (fst (processCoolingTowerControl COOLING_TOWER_CONFIG None 1000 fault_input
      no_commands empty_storage)) = 2 \<and>
   towerVFDEnable (fst (processCoolingTowerControl COOLING_TOWER_CONFIG None 1000 fault_input
      no_commands empty_storage)) = all3 False"
proof -
  have f: "criticalFaultOnInput COOLING_TOWER_CONFIG fault_input"
    by (simp add: criticalFaultOnInput_def COOLING_TOWER_CONFIG_def fault_input_def no_input_def
        channelReading_def)
  have l: "shutdownFaultList COOLING_TOWER_CONFIG fault_input =
     [''TOWER2_HIGH_VIBRATION_CRITICAL (ID: H2lwkgXBNDsvnuKoDUQe)'',
      ''TOWER2_CRITICAL_VFD_CURRENT (ID: H2lwkgXBNDsvnuKoDUQe)'',
      ''PUMP3_OVERCURRENT (Tower ID: QYTVSM7IMylxDc2Y0pxr)'']"
    by (simp add: shutdownFaultList_def COOLING_TOWER_CONFIG_def fault_input_def no_input_def
        channelReading_def)
  show ?thesis
    using safe_shutdown_on_critical_fault [OF f, of None 1000 no_commands empty_storage
        "fst (processCoolingTowerControl COOLING_TOWER_CONFIG None 1000 fault_input no_commands empty_storage)"
        "snd (processCoolingTowerControl COOLING_TOWER_CONFIG None 1000 fault_input no_commands empty_storage)"]
    unfolding l by simp
qed

subsection \<open>C2: the minimum runtime\<close>

text \<open>
  The claim lets the invariant hold for all sensor inputs and all prior states. A critical
  fault breaks it by design: tower 1 started 100 s before the tick, and with tower 1
  vibrating at 8 mm/s the tick returns with the start time kept and the enable false.
\<close>

theorem minimum_runtime_counterexample:
  "startTime (timerOf (snd (processCoolingTowerControl COOLING_TOWER_CONFIG None T0 vib_input
       no_commands (running_storage 900000))) 1) = Some 900000 \<and>
   real_of_int (T0 - 900000) / 1000 < 420 \<and>
   \<not> get3 False (towerVFDEnable (fst (processCoolingTowerControl COOLING_TOWER_CONFIG None T0
       vib_input no_commands (running_storage 900000)))) 1"
  by code_simp

text \<open>
  C2, amended. At the end of every tick without critical fault on which the UI commands
  leave the system enabled and in automatic mode, for every tower i of 1, 2, 3 whose
  carried start time is set (to an instant other than 0) and now - start_time < 420 s,
  the returned command has tower i's VFD enable true.
\<close>

theorem minimum_runtime_enforced_in_auto:
  assumes res: "processCoolingTowerControl cfg pid now dat ui stateStorage = (cr, st)"
    and nofault: "\<not> criticalFaultPresent cfg (parsed now dat stateStorage)"
    and auto: "autoMode ui"
    and tower: "isTower i"
    and start: "startTime (timerOf st i) = Some start" "start \<noteq> 0"
    and young: "real_of_int (now - start) / 1000 < 420"
  shows "get3 False (towerVFDEnable cr) i"
proof -
  have r: "automaticControlSequence cfg pid now (parsed now dat stateStorage) ui
       (tickResult cfg now (parsed now dat stateStorage) ui, tickState now dat stateStorage) = (cr, st)"
    using res process_auto [OF nofault auto, of pid] by simp
  obtain v where v: "v_enable (towerView (cr, st) i) = v_enable (enforceView now (parsed now dat stateStorage) v)"
    "v_timer (towerView (cr, st) i) = v_timer (enforceView now (parsed now dat stateStorage) v)"
    using automatic_towers [OF tower, of cfg pid now "parsed now dat stateStorage" ui
        "(tickResult cfg now (parsed now dat stateStorage) ui, tickState now dat stateStorage)"]
    unfolding r by blast
  have "startTime (v_timer (enforceView now (parsed now dat stateStorage) v)) = Some start"
    using start(1) v(2) by (simp add: towerView_def)
  then have "v_enable (enforceView now (parsed now dat stateStorage) v)"
    using start(2) young by (rule enforceView_enabled)
  then show ?thesis
    using v(1) by (simp add: towerView_def)
qed

theorem minimum_runtime_witness:
  "get3 False (towerVFDEnable (fst (processCoolingTowerControl COOLING_TOWER_CONFIG None T0
       cold_input no_commands (running_storage 900000)))) 1"
proof -
  have r: "processCoolingTowerControl COOLING_TOWER_CONFIG None T0 cold_input no_commands
       (running_storage 900000) =
     (fst (processCoolingTowerControl COOLING_TOWER_CONFIG None T0 cold_input no_commands
       (running_storage 900000)),
      snd (processCoolingTowerControl COOLING_TOWER_CONFIG None T0 cold_input no_commands
       (running_storage 900000)))"
    by simp
  have f: "\<not> criticalFaultPresent COOLING_TOWER_CONFIG (parsed T0 cold_input (running_storage 900000))"
    by code_simp
  have a: "autoMode no_commands"
    by code_simp
  have t: "isTower 1"
    by code_simp
  have s: "startTime (timerOf (snd (processCoolingTowerControl COOLING_TOWER_CONFIG None T0
       cold_input no_commands (running_storage 900000))) 1) = Some 900000"
    by code_simp
  have n: "(900000::int) \<noteq> 0"
    by simp
  have y: "real_of_int (T0 - 900000) / 1000 < 420"
    by code_simp
  from minimum_runtime_enforced_in_auto [OF r f a t s n y] show ?thesis .
qed

subsection \<open>C3: the staging decision table\<close>

text \<open>
  C3. The staging decider computes deltaT = HP supply - setpoint and its demanded tower
  count and demand are those of the decision table, read top-down with the first match
  winning: (deltaT < -15 or HP supply < 65 or tower supply < 50) gives 0 towers at 0;
  otherwise a tower with its start time set and deltaT >= -5 give max(1, number of towers
  with a start time) at clamp(28 + 3 deltaT, 28, 100); otherwise deltaT >= 35 gives 3 at
  100, >= 30 gives 3 at 75, >= 20 gives 2 at 60, >= 10 gives 1 at
  clamp(28 + 2 (deltaT - 10), 28, 50), anything else 0 at 0. A start time that is set is
  an instant other than 0 (the source counts running towers with a truth test).
\<close>

theorem staging_decision_table:
  assumes "startTime (timerOf st 1) \<noteq> Some 0" "startTime (timerOf st 2) \<noteq> Some 0"
    "startTime (timerOf st 3) \<noteq> Some 0"
  shows "deltaT (calculateStaging sd st) = hpSupply (temps sd) - targetSetpoint sd \<and>
         (demandedTowers (calculateStaging sd st), sd_coolingDemand (calculateStaging sd st)) =
           stagingTable (hpSupply (temps sd) - targetSetpoint sd) (hpSupply (temps sd))
             (towerSupply (temps sd)) (startedCount st)"
proof -
  have c: "getCurrentlyRunningTowerCount st = startedCount st"
    using assms by (rule count_eq)
  show ?thesis
    by (simp add: calculateStaging_def stagingTable_def clamp_def any_eq c Let_def mult.commute)
qed

lemma parsed_warm:
  "parsed 1000 warm_input empty_storage =
     \<lparr>vfdCurrents = \<lparr>tower1A = 0, tower1B = 0, tower2A = 0, tower2B = 0, tower3A = 0, tower3B = 0\<rparr>,
      pumpCurrents = \<lparr>k1 = 0, k2 = 0, k3 = 0\<rparr>,
      temps = \<lparr>towerSupply = 75, towerReturn = 85, hpReturn = 85, hpSupply = 90, outdoor = 80\<rparr>,
      vibration = \<lparr>k1 = 0, k2 = 0, k3 = 0\<rparr>, targetSetpoint = 75\<rparr>"
  by (simp add: parsed_def parseSensorData_def sanitizeTemperatures_def sanitizeOne_def
      warm_input_def no_input_def parseOr_def js_falsy_def initializeState_def empty_storage_def)

theorem staging_decision_table_witness:
  "demandedTowers (calculateStaging (parsed 1000 warm_input empty_storage)
      (initializeState 1000 empty_storage)) = 1 \<and>
   sd_coolingDemand (calculateStaging (parsed 1000 warm_input empty_storage)
      (initializeState 1000 empty_storage)) = 38"
proof -
  have h: "startTime (timerOf (initializeState 1000 empty_storage) 1) \<noteq> Some 0"
    "startTime (timerOf (initializeState 1000 empty_storage) 2) \<noteq> Some 0"
    "startTime (timerOf (initializeState 1000 empty_storage) 3) \<noteq> Some 0"
    by (simp_all add: timerOf_simps initializeState_def empty_storage_def all3_def)
  have c: "startedCount (initializeState 1000 empty_storage) = 0"
    by (simp add: startedCount_def timerOf_simps initializeState_def empty_storage_def all3_def)
  have v: "stagingTable (hpSupply (temps (parsed 1000 warm_input empty_storage)) -
             targetSetpoint (parsed 1000 warm_input empty_storage))
             (hpSupply (temps (parsed 1000 warm_input empty_storage)))
             (towerSupply (temps (parsed 1000 warm_input empty_storage)))
             (startedCount (initializeState 1000 empty_storage)) = (1, 38)"
    unfolding c parsed_warm by (simp add: stagingTable_def clamp_def)
  from staging_decision_table [OF h, of "parsed 1000 warm_input empty_storage"]
  show ?thesis unfolding v by simp
qed

subsection \<open>C4: the runtime enforcer\<close>

text \<open>
  The claim stops a tower past its minimum runtime when deltaT < -10 or HP supply < 65,
  and otherwise clears its start time while it forces the tower ON. The optimized
  \<^verbatim>\<open>enforceMinimumRuntimes\<close> tests deltaT < -10 alone and keeps the start time of a
  tower it forces ON. With tower 1 started 500 s before the tick and no tower demanded:
  at HP supply 64 (setpoint 70) the tower is forced ON and keeps its start time, no stop
  time is written; at HP supply 68 (setpoint 75, deltaT = -7) the tower is forced ON and
  its start time is still set.
\<close>

theorem runtime_enforcer_counterexample:
  "hpSupply (temps (parsed T0 cold_input (running_storage 500000))) < 65 \<and>
   \<not> real_of_int (T0 - 500000) / 1000 < 420 \<and>
   activeTowers (fst (processCoolingTowerControl COOLING_TOWER_CONFIG None T0 cold_input
       no_commands (running_storage 500000))) = 0 \<and>
   timerOf (snd (processCoolingTowerControl COOLING_TOWER_CONFIG None T0 cold_input no_commands
       (running_storage 500000))) 1 = \<lparr>startTime = Some 500000, stopTime = None\<rparr> \<and>
   get3 False (towerVFDEnable (fst (processCoolingTowerControl COOLING_TOWER_CONFIG None T0
       cold_input no_commands (running_storage 500000)))) 1 \<and>
   hpSupply (temps (parsed T0 mild_input (running_storage 500000))) -
     targetSetpoint (parsed T0 mild_input (running_storage 500000)) = -7 \<and>
   activeTowers (fst (processCoolingTowerControl COOLING_TOWER_CONFIG None T0 mild_input
       no_commands (running_storage 500000))) = 0 \<and>
   get3 False (towerVFDEnable (fst (processCoolingTowerControl COOLING_TOWER_CONFIG None T0
       mild_input no_commands (running_storage 500000)))) 1 \<and>
   timerOf (snd (processCoolingTowerControl COOLING_TOWER_CONFIG None T0 mild_input no_commands
       (running_storage 500000))) 1 = \<lparr>startTime = Some 500000, stopTime = None\<rparr>"
  by code_simp

text \<open>
  C4, amended. For every tower i of 1, 2, 3 that has a start time set (an instant other
  than 0) and that the commander has not enabled in the current cycle: if its runtime is
  less than 420 s it is forced ON (enable asserted, speed = V_min, isolation valve open,
  valve-close cleared; timers unchanged); else if deltaT < -10 its start time is cleared
  and its stop time is written to now (the commands stay as the commander left them);
  else it is forced ON as above and its start time is kept.
\<close>

theorem runtime_enforcer:
  assumes "isTower i" "startTime (timerOf st i) = Some start" "start \<noteq> 0"
    "\<not> get3 False (towerVFDEnable cr) i"
  shows "towerView (enforceMinimumRuntimes now sd (cr, st)) i =
     (if real_of_int (now - start) / 1000 < 420 then forcedOn (towerView (cr, st) i)
      else if hpSupply (temps sd) - targetSetpoint sd < -10 then stopped now (towerView (cr, st) i)
      else forcedOn (towerView (cr, st) i))"
  unfolding towerView_enforceMinimumRuntimes [OF assms(1)] enforceView_Some [OF assms(2)]
  using assms(3,4) by simp

theorem runtime_enforcer_witness:
  "towerView (enforceMinimumRuntimes T0 (parsed T0 cold_input empty_storage)
      (off_result, initializeState T0 (running_storage 900000))) 1 =
   \<lparr>v_enable = True, v_speed = VFD_MIN_SPEED, v_open = True, v_close = False,
    v_timer = \<lparr>startTime = Some 900000, stopTime = None\<rparr>\<rparr>"
proof -
  have t: "isTower 1"
    by code_simp
  have s: "startTime (timerOf (initializeState T0 (running_storage 900000)) 1) = Some 900000"
    by code_simp
  have n: "(900000::int) \<noteq> 0"
    by simp
  have e: "\<not> get3 False (towerVFDEnable off_result) 1"
    by code_simp
  have v: "(if real_of_int (T0 - 900000) / 1000 < 420
            then forcedOn (towerView (off_result, initializeState T0 (running_storage 900000)) 1)
            else if hpSupply (temps (parsed T0 cold_input empty_storage)) -
                    targetSetpoint (parsed T0 cold_input empty_storage) < -10
                 then stopped T0 (towerView (off_result, initializeState T0 (running_storage 900000)) 1)
                 else forcedOn (towerView (off_result, initializeState T0 (running_storage 900000)) 1)) =
     \<lparr>v_enable = True, v_speed = VFD_MIN_SPEED, v_open = True, v_close = False,
      v_timer = \<lparr>startTime = Some 900000, stopTime = None\<rparr>\<rparr>"
    by code_simp
  from runtime_enforcer [OF t s n e, of T0 "parsed T0 cold_input empty_storage"]
  show ?thesis unfolding v .
qed

subsection \<open>C5: the pump failover scenario\<close>

text \<open>The tick on which a failure of the active pump is detected.\<close>

lemma controlPumps_failover_tick:
  assumes "\<not> BYPASS_PUMP_STATUS cfg" "changeoverState (pumps st) = None"
    "get3 0 (pumpCurrents sd) (activePump (pumps st)) < 10"
    "now - lastFailoverTime (pumps st) > 30000"
    "findNextAvailablePump cfg (activePump (pumps st)) = Some n"
  shows "controlPumps cfg now sd (cr, st) =
     (cr, st\<lparr>pumps := updatePumpRuntime ((pumps st)
        \<lparr>changeoverState := Some \<lparr>newPump = n, co_startTime = now\<rparr>,
         failoverCount := failoverCount (pumps st) + 1, lastFailoverTime := now\<rparr>)\<rparr>)"
proof -
  define ps where "ps = (pumps st)
        \<lparr>changeoverState := Some \<lparr>newPump = n, co_startTime = now\<rparr>,
         failoverCount := failoverCount (pumps st) + 1, lastFailoverTime := now\<rparr>"
  have c: "changeoverState ps = Some \<lparr>newPump = n, co_startTime = now\<rparr>"
    by (simp add: ps_def)
  have a: "get3 False (PUMP_AVAILABLE cfg) n"
    using assms(5) by (simp add: findNextAvailablePump_def Let_def split: if_splits)
  have f: "checkPumpFailure cfg sd (pumps st) cr now = ps"
    using assms a by (simp add: checkPumpFailure_def Let_def ps_def)
  have r: "checkPumpRotation cfg ps now = ps"
    using c by (simp add: checkPumpRotation_def Let_def)
  have "controlPumps cfg now sd (cr, st) = (cr, st\<lparr>pumps := updatePumpRuntime ps\<rparr>)"
    using assms(1,2) c by (simp add: controlPumps_def Let_def f r)
  thus ?thesis
    unfolding ps_def .
qed

text \<open>The tick after the overlap has elapsed.\<close>

lemma controlPumps_changeover_complete:
  assumes "\<not> BYPASS_PUMP_STATUS cfg"
    "changeoverState (pumps st) = Some \<lparr>newPump = n, co_startTime = t\<rparr>"
    "now - t \<ge> PUMP_CHANGEOVER_OVERLAP_MS"
    "now - lastFailoverTime (pumps st) \<le> 30000"
    "now - pump_lastRotationTime (pumps st) < WEEK_IN_MS"
  shows "controlPumps cfg now sd (cr, st) =
     (cr\<lparr>pumpEnable := set3 n True (pumpEnable cr)\<rparr>,
      st\<lparr>pumps := updatePumpRuntime ((pumps st)\<lparr>activePump := n, changeoverState := None\<rparr>)\<rparr>)"
proof -
  have f: "checkPumpFailure cfg sd ((pumps st)\<lparr>activePump := n, changeoverState := None\<rparr>) cr now =
      (pumps st)\<lparr>activePump := n, changeoverState := None\<rparr>"
    using assms(4) by (simp add: checkPumpFailure_def Let_def)
  have r: "checkPumpRotation cfg ((pumps st)\<lparr>activePump := n, changeoverState := None\<rparr>) now =
      (pumps st)\<lparr>activePump := n, changeoverState := None\<rparr>"
    using assms(5) by (simp add: checkPumpRotation_def Let_def)
  show ?thesis
    using assms(1,2,3) by (simp add: controlPumps_def Let_def f r)
qed

text \<open>
  The claim has both pumps enabled on the tick that detects the failure and on the tick
  6 s later. In the optimized \<^verbatim>\<open>controlPumps\<close> the changeover block runs before the
  failure check: the tick that creates the changeover record enables no pump, and 6 s
  later the overlap of 5 s is over, so that tick completes the changeover and enables
  pump 2 alone.
\<close>

theorem pump_failover_counterexample:
  "activePump (pumps (initializeState T0 failover_storage)) = 1 \<and>
   changeoverState (pumps (initializeState T0 failover_storage)) = None \<and>
   k1 (pumpCurrents (parsed T0 failover_input failover_storage)) = 2 \<and>
   T0 - lastFailoverTime (pumps (initializeState T0 failover_storage)) = 60000 \<and>
   pumpEnable (fst failover_step1) = \<lparr>k1 = False, k2 = False, k3 = False\<rparr> \<and>
   pumpEnable (fst failover_step2) = \<lparr>k1 = False, k2 = True, k3 = False\<rparr>"
  by code_simp

text \<open>
  C5, amended. From active pump 1, no changeover in progress, pump 1 drawing 2 A and the
  last failover 60 s ago: the first step creates the changeover record with new_pump = 2
  (started now; the failover count becomes 1, the active pump is still 1); the step 6 s
  later, after the overlap of 5 s, completes the changeover: only pump2Enable is true and
  the carried active pump is 2; the step 6 s after that again has only pump2Enable true
  and active pump 2.
\<close>

theorem pump_failover_scenario:
  "changeoverState (pumps (snd failover_step1)) = Some \<lparr>newPump = 2, co_startTime = T0\<rparr> \<and>
   activePump (pumps (snd failover_step1)) = 1 \<and>
   failoverCount (pumps (snd failover_step1)) = 1 \<and>
   lastFailoverTime (pumps (snd failover_step1)) = T0 \<and>
   pumpEnable (fst failover_step2) = \<lparr>k1 = False, k2 = True, k3 = False\<rparr> \<and>
   activePump (pumps (snd failover_step2)) = 2 \<and>
   changeoverState (pumps (snd failover_step2)) = None \<and>
   pumpEnable (fst failover_step3) = \<lparr>k1 = False, k2 = True, k3 = False\<rparr> \<and>
   activePump (pumps (snd failover_step3)) = 2 \<and>
   changeoverState (pumps (snd failover_step3)) = None"
  by code_simp

theorem pump_failover_scenario_witness:
  "activePump (pumps (snd failover_step3)) = 2"
  using pump_failover_scenario by simp

subsection \<open>C6: the VFD ramp filter\<close>

text \<open>
  The claim gives the ramp filter a delay of 15 s when the target is above the current
  voltage and of 20 s when it is below. \<^verbatim>\<open>applySpeedRamping\<close> has one delay,
  15 s, for both directions: 16 s after the last change, with the target (3.0 V) below
  the current voltage (4.0 V), the voltage changes to 3.7 V.
\<close>

theorem ramp_counterexample:
  "currentSpeed (snd (applySpeedRamping 16000 3.0 \<lparr>currentSpeed = 4.0, targetSpeed = 3.0, lastChange = 0\<rparr>)) = 3.7
   \<and> (16000::int) - lastChange \<lparr>currentSpeed = 4.0, targetSpeed = 3.0, lastChange = 0\<rparr> < 20000
   \<and> (3.0::real) < currentSpeed \<lparr>currentSpeed = 4.0, targetSpeed = 3.0, lastChange = 0\<rparr>"
  by (simp add: applySpeedRamping_def Let_def)


text \<open>
  C6, amended. The ramp filter starts from the current voltage (a current voltage of 0 is
  first set to the minimum speed). It moves that voltage toward the target by at most
  0.3 V per change, and never away from it; a change occurs only when
  now - last_change >= 15 s, whether the target is above or below the current voltage,
  and the target is more than 0.1 V away, and then last_change becomes now; otherwise the
  voltage is kept. The returned speed is the voltage clamped to [2.6, 4.8].
\<close>

theorem ramp_filter_step:
  assumes "applySpeedRamping now target rs = (out, rs')"
  shows "\<bar>currentSpeed rs' - rampBase rs\<bar> \<le> 0.3 \<and>
         \<bar>target - currentSpeed rs'\<bar> \<le> \<bar>target - rampBase rs\<bar> \<and>
         (currentSpeed rs' \<noteq> rampBase rs \<longrightarrow>
            now - lastChange rs \<ge> 15000 \<and> \<bar>target - rampBase rs\<bar> > 0.1 \<and> lastChange rs' = now) \<and>
         (now - lastChange rs < 15000 \<longrightarrow> currentSpeed rs' = rampBase rs) \<and>
         (now - lastChange rs \<ge> 15000 \<and> \<bar>target - rampBase rs\<bar> > 0.1 \<longrightarrow>
            currentSpeed rs' = rampBase rs + sgn (target - rampBase rs) * min \<bar>target - rampBase rs\<bar> 0.3) \<and>
         out = clamp (currentSpeed rs') VFD_MIN_SPEED VFD_MAX_SPEED"
proof -
  define d where "d = target - rampBase rs"
  define s where "s = sgn d * min \<bar>d\<bar> 0.3"
  have b1: "\<bar>s\<bar> \<le> 0.3" and b2: "\<bar>d - s\<bar> \<le> \<bar>d\<bar>"
    unfolding s_def by (rule step_bound)+
  show ?thesis
  proof (cases "now - lastChange rs \<ge> 15000 \<and> \<bar>target - rampBase rs\<bar> > 0.1")
    case True
    have "applySpeedRamping now target rs =
        (max VFD_MIN_SPEED (min VFD_MAX_SPEED (rampBase rs + s)),
         \<lparr>currentSpeed = rampBase rs + s, targetSpeed = target, lastChange = now\<rparr>)"
      unfolding s_def d_def by (simp only: applySpeedRamping_eq True if_True simp_thms)
    with assms have c: "currentSpeed rs' = rampBase rs + s" and l: "lastChange rs' = now"
      and o: "out = clamp (currentSpeed rs') VFD_MIN_SPEED VFD_MAX_SPEED"
      by (auto simp add: clamp_def)
    have t: "target - (rampBase rs + s) = d - s"
      by (simp add: d_def)
    have g1: "\<bar>currentSpeed rs' - rampBase rs\<bar> \<le> 0.3"
      unfolding c using b1 by simp
    have g2: "\<bar>target - currentSpeed rs'\<bar> \<le> \<bar>target - rampBase rs\<bar>"
      unfolding c t using b2 by (simp only: d_def)
    have g5: "currentSpeed rs' = rampBase rs + sgn (target - rampBase rs) * min \<bar>target - rampBase rs\<bar> 0.3"
      unfolding c s_def d_def by (rule refl)
    have g4: "now - lastChange rs < 15000 \<longrightarrow> currentSpeed rs' = rampBase rs"
      using True by simp
    from True g1 g2 g4 g5 l o show ?thesis by blast
  next
    case False
    have "applySpeedRamping now target rs =
        (max VFD_MIN_SPEED (min VFD_MAX_SPEED (rampBase rs)),
         \<lparr>currentSpeed = rampBase rs, targetSpeed = target,
          lastChange = (if currentSpeed rs = 0 then now else lastChange rs)\<rparr>)"
      by (simp only: applySpeedRamping_eq False if_False)
    with assms have c: "currentSpeed rs' = rampBase rs"
      and o: "out = clamp (currentSpeed rs') VFD_MIN_SPEED VFD_MAX_SPEED"
      by (auto simp add: clamp_def)
    have g1: "\<bar>currentSpeed rs' - rampBase rs\<bar> \<le> 0.3"
      unfolding c by simp
    have g2: "\<bar>target - currentSpeed rs'\<bar> \<le> \<bar>target - rampBase rs\<bar>"
      unfolding c by simp
    have g3: "currentSpeed rs' \<noteq> rampBase rs \<longrightarrow>
            now - lastChange rs \<ge> 15000 \<and> \<bar>target - rampBase rs\<bar> > 0.1 \<and> lastChange rs' = now"
      using c by blast
    have g4: "now - lastChange rs < 15000 \<longrightarrow> currentSpeed rs' = rampBase rs"
      using c by blast
    have g5: "now - lastChange rs \<ge> 15000 \<and> \<bar>target - rampBase rs\<bar> > 0.1 \<longrightarrow>
            currentSpeed rs' = rampBase rs + sgn (target - rampBase rs) * min \<bar>target - rampBase rs\<bar> 0.3"
      using False by blast
    from g1 g2 g3 g4 g5 o show ?thesis by blast
  qed
qed

theorem ramp_filter_step_witness:
  "currentSpeed (snd (applySpeedRamping 20000 4.0 \<lparr>currentSpeed = 3.0, targetSpeed = 3.0, lastChange = 0\<rparr>)) = 3.3"
proof -
  have c: "(20000::int) - lastChange \<lparr>currentSpeed = 3.0, targetSpeed = 3.0, lastChange = 0\<rparr> \<ge> 15000 \<and>
      \<bar>4.0 - rampBase \<lparr>currentSpeed = 3.0, targetSpeed = 3.0, lastChange = 0\<rparr>\<bar> > 0.1"
    by (simp add: rampBase_def)
  have v: "rampBase \<lparr>currentSpeed = 3.0, targetSpeed = 3.0, lastChange = 0\<rparr> +
      sgn (4.0 - rampBase \<lparr>currentSpeed = 3.0, targetSpeed = 3.0, lastChange = 0\<rparr>) *
      min \<bar>4.0 - rampBase \<lparr>currentSpeed = 3.0, targetSpeed = 3.0, lastChange = 0\<rparr>\<bar> 0.3 = 3.3"
    by (simp add: rampBase_def)
  from ramp_filter_step [of 20000 "4.0" "\<lparr>currentSpeed = 3.0, targetSpeed = 3.0, lastChange = 0\<rparr>"
      "fst (applySpeedRamping 20000 4.0 \<lparr>currentSpeed = 3.0, targetSpeed = 3.0, lastChange = 0\<rparr>)"
      "snd (applySpeedRamping 20000 4.0 \<lparr>currentSpeed = 3.0, targetSpeed = 3.0, lastChange = 0\<rparr>)"]
  have "currentSpeed (snd (applySpeedRamping 20000 4.0 \<lparr>currentSpeed = 3.0, targetSpeed = 3.0, lastChange = 0\<rparr>)) =
      rampBase \<lparr>currentSpeed = 3.0, targetSpeed = 3.0, lastChange = 0\<rparr> +
      sgn (4.0 - rampBase \<lparr>currentSpeed = 3.0, targetSpeed = 3.0, lastChange = 0\<rparr>) *
      min \<bar>4.0 - rampBase \<lparr>currentSpeed = 3.0, targetSpeed = 3.0, lastChange = 0\<rparr>\<bar> 0.3"
    using c by simp
  then show ?thesis unfolding v .
qed

subsection \<open>C7: the sensor sanitizer\<close>




subsection \<open>C8: UI valve overrides\<close>

text \<open>
  C8 (a defect of the code): a bypass valve position from the UI is to be returned
  clamped to [2, 10]. \<^verbatim>\<open>controlValves\<close> stores the clamped bypass command and then,
  when no tempering command comes with it, goes on to the automatic control, which writes
  2.0 V over it: in automatic mode and without critical fault, when the UI sends no
  tempering valve position the returned bypass position is 2 V whatever the UI commands
  for the bypass valve.
\<close>

theorem bypass_override_lost:
  assumes "\<not> criticalFaultPresent cfg (parsed now dat stateStorage)" "autoMode ui"
    "ui_temperingValvePosition ui = None"
  shows "bypassValvePosition (fst (processCoolingTowerControl cfg pid now dat ui stateStorage)) = 2"
  using automatic_bypass_valve [OF assms(1,2)] assms(3) by simp

text \<open>With the UI commanding a bypass position of 5 V alone, the returned position is
  2 V and not the clamped command of 5 V.\<close>

theorem bypass_override_lost_witness:
  "ui_bypassValvePosition bypass_only_commands = Some 5 \<and>
   clamp 5 2.0 10.0 = 5 \<and>
   bypassValvePosition (fst (processCoolingTowerControl COOLING_TOWER_CONFIG None T0 no_input
      bypass_only_commands empty_storage)) = 2"
proof -
  have a: "\<not> criticalFaultPresent COOLING_TOWER_CONFIG (parsed T0 no_input empty_storage)"
    by code_simp
  have b: "autoMode bypass_only_commands"
    by code_simp
  have c: "ui_temperingValvePosition bypass_only_commands = None"
    by code_simp
  have d: "ui_bypassValvePosition bypass_only_commands = Some 5"
    by code_simp
  have e: "clamp 5 2.0 10.0 = (5::real)"
    by code_simp
  show ?thesis
    using bypass_override_lost [OF a b c] d e by simp
qed

subsection \<open>C9: heater hysteresis\<close>

text \<open>
  C9 (a defect of the code): within the band [35, 45] the heaters are to keep their
  previous state. Every tick starts from a fresh control result with the heaters off, and
  \<^verbatim>\<open>controlHeaters\<close> leaves that value alone within the band: in automatic mode,
  without critical fault and without heater commands from the UI, a tick with the outdoor
  temperature within [35, 45] returns the three heaters OFF whatever state is carried, so
  also when the tick before returned them ON.
\<close>

theorem heater_hysteresis_lost:
  assumes "\<not> criticalFaultPresent cfg (parsed now dat stateStorage)" "autoMode ui"
    "ui_towerHeaterEnable ui = all3 None"
    "35 \<le> outdoor (temps (parsed now dat stateStorage))"
    "outdoor (temps (parsed now dat stateStorage)) \<le> 45"
  shows "towerHeaterEnable (fst (processCoolingTowerControl cfg pid now dat ui stateStorage)) =
     all3 False"
  using automatic_heaters [OF assms(1,2)] assms(3,4,5) by (simp add: override3_def all3_def)

text \<open>A tick at 30 degrees outdoor switches the heaters ON; the next tick, 7 s later on
  the carried state and at 40 degrees outdoor, returns them OFF.\<close>

theorem heater_hysteresis_lost_witness:
  "towerHeaterEnable (fst heater_tick1) = all3 True \<and>
   outdoor (temps (parsed (T0 + 7000) band_input (carried (snd heater_tick1)))) = 40 \<and>
   towerHeaterEnable (fst heater_tick2) = all3 False"
proof -
  have a: "\<not> criticalFaultPresent COOLING_TOWER_CONFIG
             (parsed (T0 + 7000) band_input (carried (snd heater_tick1)))"
    by code_simp
  have b: "autoMode no_commands"
    by code_simp
  have c: "ui_towerHeaterEnable no_commands = all3 None"
    by code_simp
  have d: "outdoor (temps (parsed (T0 + 7000) band_input (carried (snd heater_tick1)))) = 40"
    by code_simp
  have e: "towerHeaterEnable (fst heater_tick1) = all3 True"
    by code_simp
  have "towerHeaterEnable (fst heater_tick2) = all3 False"
    unfolding heater_tick2_def
    by (rule heater_hysteresis_lost [OF a b c]) (simp_all add: d)
  with d e show ?thesis
    by blast
qed

subsection \<open>C10: system disabled or manual mode\<close>

text \<open>
  The claim has all heater enables false in this mode. \<^verbatim>\<open>applyManualOverrides\<close>
  applies the per-tower heater overrides as it applies those of the VFD enables and fan
  speeds: with the system disabled and the heater of tower 1 switched on from the UI, the
  returned heater enable of tower 1 is true.
\<close>

theorem manual_mode_counterexample:
  "ui_systemEnabled heater_override_commands = Some False \<and>
   \<not> criticalFaultPresent COOLING_TOWER_CONFIG (parsed T0 no_input empty_storage) \<and>
   k1 (towerHeaterEnable (fst (processCoolingTowerControl COOLING_TOWER_CONFIG None T0 no_input
      heater_override_commands empty_storage)))"
  by code_simp

text \<open>
  C10, amended. In the optimized variant, for every input with no critical fault where
  the UI commands set systemEnabled to false or controlMode to a value other than auto,
  the function returns right after the manual overrides: every pump enable is false;
  every tower VFD enable is false, every fan speed 0 and every heater enable false except
  where a per-tower UI override sets it; bypass and tempering valve outputs are 2.0 V;
  the tower state (timers, ramps), the pump state and the PID states are those of the
  initialized state, so what the caller handed over is returned as it was.
\<close>

theorem manual_mode_returns_after_overrides:
  assumes res: "processCoolingTowerControl cfg pid now dat ui stateStorage = (cr, st)"
    and nofault: "\<not> criticalFaultPresent cfg (parsed now dat stateStorage)"
    and manual: "manualMode ui"
  shows "pumpEnable cr = all3 False \<and>
         towerVFDEnable cr = override3 (ui_towerVFDEnable ui) (all3 False) \<and>
         towerFanSpeed cr = override3 (ui_towerFanSpeed ui) (all3 0) \<and>
         towerHeaterEnable cr = override3 (ui_towerHeaterEnable ui) (all3 False) \<and>
         bypassValvePosition cr = 2.0 \<and> temperingValvePosition cr = 2.0 \<and>
         towers st = towers (initializeState now stateStorage) \<and>
         pumps st = pumps (initializeState now stateStorage) \<and>
         pidStates st = pidStates (initializeState now stateStorage) \<and>
         (\<forall>t. raw_towers stateStorage = Some t \<longrightarrow> towers st = t) \<and>
         (\<forall>p. raw_pumps stateStorage = Some p \<longrightarrow> pumps st = p)"
proof -
  have cr: "cr = tickResult cfg now (parsed now dat stateStorage) ui"
    and st: "st = tickState now dat stateStorage"
    using res process_manual [OF nofault manual, of pid] by simp_all
  show ?thesis
    unfolding cr st
    by (simp add: tickResult_def tickState_def applyManualOverrides_def initializeControlResult_def
        initializeState_def split: option.splits)
qed

theorem manual_mode_witness:
  "towerHeaterEnable (fst (processCoolingTowerControl COOLING_TOWER_CONFIG None T0 no_input
      heater_override_commands empty_storage)) = \<lparr>k1 = True, k2 = False, k3 = False\<rparr> \<and>
   pumpEnable (fst (processCoolingTowerControl COOLING_TOWER_CONFIG None T0 no_input
      heater_override_commands empty_storage)) = \<lparr>k1 = False, k2 = False, k3 = False\<rparr>"
proof -
  have r: "processCoolingTowerControl COOLING_TOWER_CONFIG None T0 no_input heater_override_commands
       empty_storage =
     (fst (processCoolingTowerControl COOLING_TOWER_CONFIG None T0 no_input heater_override_commands
       empty_storage),
      snd (processCoolingTowerControl COOLING_TOWER_CONFIG None T0 no_input heater_override_commands
       empty_storage))"
    by simp
  have f: "\<not> criticalFaultPresent COOLING_TOWER_CONFIG (parsed T0 no_input empty_storage)"
    by code_simp
  have m: "manualMode heater_override_commands"
    by code_simp
  have o: "override3 (ui_towerHeaterEnable heater_override_commands)
      \<lparr>k1 = False, k2 = False, k3 = False\<rparr> = \<lparr>k1 = True, k2 = False, k3 = False\<rparr>"
    by code_simp
  have a: "all3 False = \<lparr>k1 = False, k2 = False, k3 = False\<rparr>"
    by code_simp
  note th = manual_mode_returns_after_overrides [OF r f m]
  have h: "towerHeaterEnable (fst (processCoolingTowerControl COOLING_TOWER_CONFIG None T0 no_input
      heater_override_commands empty_storage)) =
      override3 (ui_towerHeaterEnable heater_override_commands) (all3 False)"
    using th by blast
  have p: "pumpEnable (fst (processCoolingTowerControl COOLING_TOWER_CONFIG None T0 no_input
      heater_override_commands empty_storage)) = all3 False"
    using th by blast
  show ?thesis
    unfolding h p a o by simp
qed

end
